theory Spec2Isabelle
  imports Main "HOL-Library.Sublist"
begin

section \<open>Strings\<close>

text \<open>
  The program's strings are modelled as \<open>string\<close>, a list of bytes: the UTF-8 encoding of
  the text. The marker words the program searches for are ASCII, and an ASCII word occurs
  in a text exactly when its bytes occur in the text's UTF-8 encoding, so substring tests
  and comparisons agree with the program's. The Japanese literals of the source are given
  by their UTF-8 bytes.
\<close>

text \<open>\<open>String.prototype.includes\<close>: \<open>sub\<close> occurs in \<open>s\<close> as a contiguous run.\<close>

fun str_includes :: "string \<Rightarrow> string \<Rightarrow> bool" where
  "str_includes [] sub = (sub = [])"
| "str_includes (c # cs) sub = (prefix sub (c # cs) \<or> str_includes cs sub)"

text \<open>
  \<open>String.prototype.trim\<close> strips white space and line terminators from both ends:
  the code points U+0009 to U+000D, U+0020, U+00A0, U+1680, U+2000 to U+200A, U+2028,
  U+2029, U+202F, U+205F, U+3000 and U+FEFF. \<open>whiteSpace\<close> lists their UTF-8 encodings.
  Each encoding starts with a byte that starts a character, so a text begins or ends
  with one of these code points exactly when its bytes begin or end with the encoding.
\<close>

definition whiteSpace :: "string list" where
  "whiteSpace =
     [[CHR 0x09], [CHR 0x0A], [CHR 0x0B], [CHR 0x0C], [CHR 0x0D], [CHR 0x20],
      [CHR 0xC2, CHR 0xA0],
      [CHR 0xE1, CHR 0x9A, CHR 0x80],
      [CHR 0xE2, CHR 0x80, CHR 0x80], [CHR 0xE2, CHR 0x80, CHR 0x81],
      [CHR 0xE2, CHR 0x80, CHR 0x82], [CHR 0xE2, CHR 0x80, CHR 0x83],
      [CHR 0xE2, CHR 0x80, CHR 0x84], [CHR 0xE2, CHR 0x80, CHR 0x85],
      [CHR 0xE2, CHR 0x80, CHR 0x86], [CHR 0xE2, CHR 0x80, CHR 0x87],
      [CHR 0xE2, CHR 0x80, CHR 0x88], [CHR 0xE2, CHR 0x80, CHR 0x89],
      [CHR 0xE2, CHR 0x80, CHR 0x8A],
      [CHR 0xE2, CHR 0x80, CHR 0xA8], [CHR 0xE2, CHR 0x80, CHR 0xA9],
      [CHR 0xE2, CHR 0x80, CHR 0xAF],
      [CHR 0xE2, CHR 0x81, CHR 0x9F],
      [CHR 0xE3, CHR 0x80, CHR 0x80],
      [CHR 0xEF, CHR 0xBB, CHR 0xBF]]"

function trimStart :: "string \<Rightarrow> string" where
  "trimStart s =
     (case find (\<lambda>w. prefix w s) whiteSpace of
        None \<Rightarrow> s
      | Some w \<Rightarrow> trimStart (drop (length w) s))"
  by pat_completeness auto
termination
proof (relation "measure length")
  show "wf (measure length)" by simp
next
  fix s w
  assume "find (\<lambda>w. prefix w s) whiteSpace = Some w"
  then have "w \<in> set whiteSpace" and p: "prefix w s"
    by (auto simp add: find_Some_iff)
  then have "w \<noteq> []" by (auto simp add: whiteSpace_def)
  with p have "length (drop (length w) s) < length s"
    by (cases s) (auto simp add: prefix_def)
  then show "(drop (length w) s, s) \<in> measure length" by simp
qed

function trimEnd :: "string \<Rightarrow> string" where
  "trimEnd s =
     (case find (\<lambda>w. suffix w s) whiteSpace of
        None \<Rightarrow> s
      | Some w \<Rightarrow> trimEnd (take (length s - length w) s))"
  by pat_completeness auto
termination
proof (relation "measure length")
  show "wf (measure length)" by simp
next
  fix s w
  assume "find (\<lambda>w. suffix w s) whiteSpace = Some w"
  then have "w \<in> set whiteSpace" and p: "suffix w s"
    by (auto simp add: find_Some_iff)
  then have "w \<noteq> []" by (auto simp add: whiteSpace_def)
  with p have "length (take (length s - length w) s) < length s"
    by (cases s) (auto simp add: suffix_def)
  then show "(take (length s - length w) s, s) \<in> measure length" by simp
qed

declare trimStart.simps [simp del] trimEnd.simps [simp del]

definition trim :: "string \<Rightarrow> string" where
  "trim s = trimEnd (trimStart s)"

text \<open>
  \<open>s.split(sep)\<close> for a one-character separator: the pieces between the separators, in
  order; the empty string gives one empty piece.
\<close>

fun split :: "char \<Rightarrow> string \<Rightarrow> string list" where
  "split sep [] = [[]]"
| "split sep (c # cs) =
     (if c = sep then [] # split sep cs
      else (case split sep cs of [] \<Rightarrow> [[c]] | piece # pieces \<Rightarrow> (c # piece) # pieces))"

text \<open>
  \<open>String.prototype.toLowerCase\<close> follows the case tables of Unicode, which the model
  does not hold: lower-casing is a parameter of the model (see the runtime below).
  \<open>ascii_toLowerCase\<close> is what it does to a text of ASCII characters.
\<close>

definition ascii_toLowerCase_char :: "char \<Rightarrow> char" where
  "ascii_toLowerCase_char c =
     (if 65 \<le> (of_char c :: nat) \<and> (of_char c :: nat) \<le> 90
      then (case c of Char b0 b1 b2 b3 b4 b5 b6 b7 \<Rightarrow> Char b0 b1 b2 b3 b4 True b6 b7)
      else c)"

definition ascii_toLowerCase :: "string \<Rightarrow> string" where
  "ascii_toLowerCase s = map ascii_toLowerCase_char s"

section \<open>The command runner\<close>

text \<open>
  \<open>runCommand\<close> hands a command line to \<open>child_process.exec\<close> with a working directory,
  an output-buffer capacity and a timeout. \<open>exec\<close> belongs to the platform: it either
  throws at the call, or later calls back once with an error (or none) and the captured
  standard output and standard error. The error of the callback says why the command did
  not succeed: a non-zero exit status, termination when the timeout ran out, more output
  than the buffer holds, or a failure to start the process.
\<close>

record exec_options =
  cwd :: string
  maxBuffer :: nat
  timeout :: nat

datatype exec_error =
    ExitCode int
  | KilledOnTimeout
  | MaxBufferExceeded
  | SpawnError string

datatype exec_outcome =
    Throws string
  | Callback "exec_error option" string string

text \<open>
  The platform is a parameter: \<open>exec\<close> answers an invocation in a state of the world
  \<open>'w\<close> with an outcome and the next state of the world.
\<close>

type_synonym 'w exec = "exec_options \<Rightarrow> string \<Rightarrow> 'w \<Rightarrow> exec_outcome \<times> 'w"

datatype command_error = ExecError exec_error | Caught string

record CommandResult =
  success :: bool
  stdout :: string
  stderr :: string
  error :: "command_error option"

text \<open>
  A session is the state of the world together with the command lines handed to \<open>exec\<close>
  so far, oldest first (the program writes each of them to its output channel).
\<close>

record 'w session =
  world :: 'w
  invoked :: "string list"

text \<open>The part of a \<open>GitAutoPushCore\<close> object that the modelled methods read.\<close>

record PlatformInfo =
  system :: string
  type :: string
  name :: string
  shell :: string
  isWindows :: bool
  isMacOS :: bool
  isLinux :: bool
  isWSL :: bool

record core =
  workspaceRoot :: string
  gitPath :: string
  platformInfo :: PlatformInfo

definition runCommand_options :: "core \<Rightarrow> exec_options" where
  "runCommand_options this =
     \<lparr>cwd = workspaceRoot this, maxBuffer = 10 * 1024 * 1024, timeout = 5 * 60 * 1000\<rparr>"

text \<open>
  \<open>runCommand\<close>: the promise is resolved in the callback with \<open>success = !error\<close>, and
  in the \<open>catch\<close> branch with \<open>success = false\<close>, empty standard output and the
  exception's message as standard error. It is never rejected.
\<close>

definition runCommand ::
  "'w exec \<Rightarrow> core \<Rightarrow> string \<Rightarrow> 'w session \<Rightarrow> CommandResult \<times> 'w session" where
  "runCommand exec this command s =
     (case exec (runCommand_options this) command (world s) of
        (outcome, w') \<Rightarrow>
          ((case outcome of
              Callback err out errout \<Rightarrow>
                \<lparr>success = (err = None), stdout = out, stderr = errout,
                 error = map_option ExecError err\<rparr>
            | Throws errorMessage \<Rightarrow>
                \<lparr>success = False, stdout = [], stderr = errorMessage,
                 error = Some (Caught errorMessage)\<rparr>),
           \<lparr>world = w', invoked = invoked s @ [command]\<rparr>))"

section \<open>Branch synchronisation\<close>

text \<open>The first line of the trimmed status output, or the empty string.\<close>

definition branchInfo :: "string \<Rightarrow> string" where
  "branchInfo out =
     (let statusLines = split (CHR 0x0A) (trim out)
      in case statusLines of [] \<Rightarrow> [] | line # _ \<Rightarrow> line)"

definition checkBranchDivergence :: "'w exec \<Rightarrow> core \<Rightarrow> 'w session \<Rightarrow> bool \<times> 'w session" where
  "checkBranchDivergence exec this s =
     (case runCommand exec this ''git status --porcelain=v1 --branch'' s of
        (result, s') \<Rightarrow>
          if \<not> success result then (False, s')
          else
            let info = branchInfo (stdout result) in
            if str_includes info ''ahead'' \<and> str_includes info ''behind'' then (True, s')
            else if str_includes info ''behind'' then (True, s')
            else if str_includes info ''ahead'' then (False, s')
            else (False, s'))"

definition pullRebase :: "'w exec \<Rightarrow> core \<Rightarrow> 'w session \<Rightarrow> bool \<times> 'w session" where
  "pullRebase exec this s =
     (case runCommand exec this ''git pull --rebase'' s of
        (result, s') \<Rightarrow> if success result then (True, s') else (False, s'))"

definition pullMerge :: "'w exec \<Rightarrow> core \<Rightarrow> 'w session \<Rightarrow> bool \<times> 'w session" where
  "pullMerge exec this s =
     (case runCommand exec this ''git pull'' s of
        (result, s') \<Rightarrow> if success result then (True, s') else (False, s'))"

definition forcePush :: "'w exec \<Rightarrow> core \<Rightarrow> 'w session \<Rightarrow> bool \<times> 'w session" where
  "forcePush exec this s =
     (case runCommand exec this ''git branch --show-current'' s of
        (branchResult, s1) \<Rightarrow>
          let currentBranch =
                (if success branchResult then trim (stdout branchResult) else ''main'')
          in case runCommand exec this (''git push --force-with-lease origin '' @ currentBranch) s1 of
               (result, s2) \<Rightarrow> if success result then (True, s2) else (False, s2))"

text \<open>
  The two dialogs of \<open>handleBranchDivergence\<close> are inputs: \<open>choice\<close> is the label of the
  item picked in the quick pick (\<open>None\<close> when it was dismissed), \<open>confirmed\<close> the button
  pressed in the warning that precedes a forced push (\<open>None\<close> when it was dismissed).
  \<open>label_skip\<close> is the fourth item's label (Japanese for "skip"), \<open>answer_yes\<close> and
  \<open>answer_no\<close> are the warning's two buttons ("yes" and "no").
\<close>

definition label_skip :: string where
  "label_skip = [CHR 0xE3, CHR 0x82, CHR 0xB9, CHR 0xE3, CHR 0x82, CHR 0xAD,
                 CHR 0xE3, CHR 0x83, CHR 0x83, CHR 0xE3, CHR 0x83, CHR 0x97]"

definition answer_yes :: string where
  "answer_yes = [CHR 0xE3, CHR 0x81, CHR 0xAF, CHR 0xE3, CHR 0x81, CHR 0x84]"

definition answer_no :: string where
  "answer_no = [CHR 0xE3, CHR 0x81, CHR 0x84, CHR 0xE3, CHR 0x81, CHR 0x84,
                CHR 0xE3, CHR 0x81, CHR 0x88]"

definition handleBranchDivergence ::
  "'w exec \<Rightarrow> core \<Rightarrow> string option \<Rightarrow> string option \<Rightarrow> 'w session \<Rightarrow> bool \<times> 'w session" where
  "handleBranchDivergence exec this choice confirmed s =
     (case choice of
        None \<Rightarrow> (False, s)
      | Some label \<Rightarrow>
          if label = ''git pull --rebase'' then pullRebase exec this s
          else if label = ''git pull'' then pullMerge exec this s
          else if label = ''git push --force-with-lease'' then
            (if confirmed = Some answer_yes then forcePush exec this s else (False, s))
          else if label = label_skip then (True, s)
          else (False, s))"

section \<open>Paths\<close>

text \<open>
  The program names files through Node's \<open>path\<close> module, which Node binds to
  \<open>path.win32\<close> on a Windows host and to \<open>path.posix\<close> on every other host. The path
  module in use is a parameter of the model. Of the two variants the model holds
  \<open>path.posix\<close>, function by function.
\<close>

text \<open>
  \<open>path.dirname\<close>. The source scans from the last character down to index 1 for the
  first \<open>/\<close> that follows (leftwards) a character other than \<open>/\<close>;
  \<open>posix_dirname_scan path i matchedSlash\<close> is that loop from index \<open>i\<close>, and \<open>None\<close> is its
  \<open>end = -1\<close>.
\<close>

fun posix_dirname_scan :: "string \<Rightarrow> nat \<Rightarrow> bool \<Rightarrow> nat option" where
  "posix_dirname_scan path 0 matchedSlash = None"
| "posix_dirname_scan path (Suc j) matchedSlash =
     (if path ! Suc j = CHR ''/''
      then (if \<not> matchedSlash then Some (Suc j) else posix_dirname_scan path j matchedSlash)
      else posix_dirname_scan path j False)"

definition posix_dirname :: "string \<Rightarrow> string" where
  "posix_dirname path =
     (if length path = 0 then ''.''
      else
        let hasRoot = (path ! 0 = CHR ''/'') in
        case posix_dirname_scan path (length path - 1) True of
          None \<Rightarrow> (if hasRoot then ''/'' else ''.'')
        | Some e \<Rightarrow> (if hasRoot \<and> e = 1 then ''//'' else take e path))"

text \<open>\<open>path.posix.parse(p).root\<close>: \<open>/\<close> for an absolute path, empty otherwise.\<close>

definition posix_parse_root :: "string \<Rightarrow> string" where
  "posix_parse_root path = (if length path = 0 then [] else if path ! 0 = CHR ''/'' then ''/'' else [])"

text \<open>
  \<open>path.normalize\<close> and \<open>path.join\<close>. Normalisation drops empty and \<open>.\<close> segments and
  lets a \<open>..\<close> segment remove the segment before it; above the start of a relative
  path the \<open>..\<close> stays, above the root it is dropped.
\<close>

definition posix_normalize_step :: "bool \<Rightarrow> string list \<Rightarrow> string \<Rightarrow> string list" where
  "posix_normalize_step allowAboveRoot res seg =
     (if seg = [] \<or> seg = ''.'' then res
      else if seg = ''..'' then
        (if res \<noteq> [] \<and> last res \<noteq> ''..'' then butlast res
         else if allowAboveRoot then res @ [''..''] else res)
      else res @ [seg])"

fun posix_join_segments :: "string list \<Rightarrow> string" where
  "posix_join_segments [] = []"
| "posix_join_segments [seg] = seg"
| "posix_join_segments (seg # segs) = seg @ ''/'' @ posix_join_segments segs"

definition posix_normalizeString :: "string \<Rightarrow> bool \<Rightarrow> string" where
  "posix_normalizeString path allowAboveRoot =
     posix_join_segments (foldl (posix_normalize_step allowAboveRoot) [] (split (CHR ''/'') path))"

definition posix_normalize :: "string \<Rightarrow> string" where
  "posix_normalize path =
     (if length path = 0 then ''.''
      else
        let isAbsolute = (path ! 0 = CHR ''/'');
            trailingSeparator = (last path = CHR ''/'');
            p = posix_normalizeString path (\<not> isAbsolute)
        in if length p = 0
           then (if isAbsolute then ''/'' else if trailingSeparator then ''./'' else ''.'')
           else
             let p' = (if trailingSeparator then p @ ''/'' else p)
             in if isAbsolute then ''/'' @ p' else p')"

text \<open>\<open>path.join\<close> of two arguments: empty arguments are left out.\<close>

definition posix_join :: "string \<Rightarrow> string \<Rightarrow> string" where
  "posix_join a b =
     (if length a = 0 \<and> length b = 0 then ''.''
      else if length a = 0 then posix_normalize b
      else if length b = 0 then posix_normalize a
      else posix_normalize (a @ ''/'' @ b))"

text \<open>
  \<open>path.extname\<close>, as the source's loop from the last character down to index 0. The
  indices are integers because the source uses \<open>-1\<close> for "not found".
\<close>

record extname_state =
  startDot :: int
  startPart :: int
  end_index :: int
  matchedSlash :: bool
  preDotState :: int

fun posix_extname_scan :: "string \<Rightarrow> nat \<Rightarrow> extname_state \<Rightarrow> extname_state" where
  "posix_extname_scan path 0 st = st"
| "posix_extname_scan path (Suc i) st =
     (if path ! i = CHR ''/'' then
        (if \<not> matchedSlash st then st\<lparr>startPart := int i + 1\<rparr>
         else posix_extname_scan path i st)
      else
        let st1 = (if end_index st = - 1
                   then st\<lparr>matchedSlash := False, end_index := int i + 1\<rparr> else st);
            st2 = (if path ! i = CHR ''.'' then
                     (if startDot st1 = - 1 then st1\<lparr>startDot := int i\<rparr>
                      else if preDotState st1 \<noteq> 1 then st1\<lparr>preDotState := 1\<rparr>
                      else st1)
                   else if startDot st1 \<noteq> - 1 then st1\<lparr>preDotState := - 1\<rparr>
                   else st1)
        in posix_extname_scan path i st2)"

definition posix_extname :: "string \<Rightarrow> string" where
  "posix_extname path =
     (let st = posix_extname_scan path (length path)
                 \<lparr>startDot = - 1, startPart = 0, end_index = - 1, matchedSlash = True,
                  preDotState = 0\<rparr>
      in if startDot st = - 1 \<or> end_index st = - 1 \<or> preDotState st = 0 \<or>
            (preDotState st = 1 \<and> startDot st = end_index st - 1 \<and>
             startDot st = startPart st + 1)
         then []
         else take (nat (end_index st - startDot st)) (drop (nat (startDot st)) path))"

text \<open>
  The functions of a path module that the program calls; \<open>parse_root p\<close> is
  \<open>parse(p).root\<close>.
\<close>

record path_module =
  dirname :: "string \<Rightarrow> string"
  join :: "string \<Rightarrow> string \<Rightarrow> string"
  parse_root :: "string \<Rightarrow> string"
  extname :: "string \<Rightarrow> string"

definition posix :: path_module where
  "posix = \<lparr>dirname = posix_dirname, join = posix_join, parse_root = posix_parse_root,
            extname = posix_extname\<rparr>"

text \<open>
  The runtime under the program: the path module that \<open>path\<close> is bound to, and
  \<open>String.prototype.toLowerCase\<close>.
\<close>

record runtime =
  path :: path_module
  toLowerCase :: "string \<Rightarrow> string"

section \<open>The file system\<close>

text \<open>
  A snapshot of the file system as the three probes of the program see it.
  \<open>existsSync\<close> never throws; \<open>readdirSync\<close> and \<open>statSync\<close> throw (\<open>Inl\<close>) or
  return (\<open>Inr\<close>). Of a \<open>Stats\<close> object the program reads \<open>isFile()\<close> and
  \<open>isDirectory()\<close>.
\<close>

datatype fs_error = FsError string

datatype stats = File | Directory | Other

definition isFile :: "stats \<Rightarrow> bool" where
  "isFile st = (st = File)"

definition isDirectory :: "stats \<Rightarrow> bool" where
  "isDirectory st = (st = Directory)"

record filesystem =
  existsSync :: "string \<Rightarrow> bool"
  readdirSync :: "string \<Rightarrow> fs_error + string list"
  statSync :: "string \<Rightarrow> fs_error + stats"

section \<open>The directory classifier\<close>

text \<open>
  \<open>detectPlatform\<close> reads the host's platform identifier and release and, on Linux,
  the text of \<open>/proc/version\<close> (\<open>None\<close> when reading it throws).
\<close>

definition detectPlatform ::
  "runtime \<Rightarrow> string \<Rightarrow> string \<Rightarrow> string option \<Rightarrow> PlatformInfo" where
  "detectPlatform rt currentPlatform currentRelease procVersion =
     (let platformInfo0 =
            \<lparr>system = currentPlatform, type = ''unknown'', name = ''Unknown'',
             shell = ''unknown'', isWindows = False, isMacOS = False, isLinux = False,
             isWSL = False\<rparr>
      in if currentPlatform = ''win32'' then
           platformInfo0\<lparr>type := ''windows'', name := ''Windows '' @ currentRelease,
                         shell := ''cmd'', isWindows := True\<rparr>
         else if currentPlatform = ''darwin'' then
           platformInfo0\<lparr>type := ''macos'', name := ''macOS '' @ currentRelease,
                         shell := ''zsh'', isMacOS := True\<rparr>
         else if currentPlatform = ''linux'' then
           (let platformInfo1 =
                  platformInfo0\<lparr>type := ''linux'', name := ''Linux '' @ currentRelease,
                                shell := ''bash'', isLinux := True\<rparr>
            in case procVersion of
                 None \<Rightarrow> platformInfo1
               | Some text \<Rightarrow>
                   let versionInfo = toLowerCase rt text in
                   if str_includes versionInfo ''microsoft'' \<or> str_includes versionInfo ''wsl''
                   then platformInfo1\<lparr>type := ''wsl'', name := ''WSL '' @ currentRelease,
                                      isWSL := True\<rparr>
                   else platformInfo1)
         else platformInfo0)"

text \<open>The constructor of \<open>GitAutoPushCore\<close>.\<close>

definition GitAutoPushCore :: "runtime \<Rightarrow> string \<Rightarrow> PlatformInfo \<Rightarrow> core" where
  "GitAutoPushCore rt root info =
     \<lparr>workspaceRoot = root, gitPath = join (path rt) root ''.git'', platformInfo = info\<rparr>"

record DirectoryAnalysis =
  isGitRepo :: bool
  isEmpty :: bool
  hasSourceFiles :: bool
  isSystemFolder :: bool
  isNestedRepo :: bool
  folderType :: string
  gitInitRecommended :: bool
  warningMessage :: "string option"
  actionRecommendation :: string

definition isDirectoryEmpty :: "core \<Rightarrow> filesystem \<Rightarrow> bool" where
  "isDirectoryEmpty this fs =
     (case readdirSync fs (workspaceRoot this) of
        Inr files \<Rightarrow> length files = 0
      | Inl _ \<Rightarrow> False)"

definition sourceExtensions :: "string list" where
  "sourceExtensions =
     [''.py'', ''.js'', ''.ts'', ''.java'', ''.cpp'', ''.c'', ''.cs'', ''.php'', ''.rb'',
      ''.go'', ''.rs'', ''.swift'', ''.kt'', ''.scala'', ''.sh'', ''.bat'', ''.html'',
      ''.css'', ''.vue'', ''.jsx'', ''.tsx'', ''.json'', ''.xml'', ''.yaml'', ''.yml'',
      ''.md'', ''.txt'', ''.sql'', ''.r'', ''.m'', ''.pl'']"

definition configFiles :: "string list" where
  "configFiles =
     [''package.json'', ''requirements.txt'', ''Cargo.toml'', ''pom.xml'',
      ''build.gradle'', ''Makefile'', ''CMakeLists.txt'', ''setup.py'',
      ''pyproject.toml'', ''composer.json'', ''Gemfile'', ''go.mod'']"

definition commonSrcDirs :: "string list" where
  "commonSrcDirs = [''src'', ''lib'', ''app'', ''components'', ''modules'']"

text \<open>
  The body of the \<open>try\<close> block of \<open>hasSourceFiles\<close> from the loop on: \<open>Inl\<close> is an
  exception thrown by \<open>statSync\<close>, which leaves the loop.
\<close>

fun hasSourceFiles_loop ::
  "runtime \<Rightarrow> core \<Rightarrow> filesystem \<Rightarrow> string list \<Rightarrow> fs_error + bool" where
  "hasSourceFiles_loop rt this fs [] = Inr False"
| "hasSourceFiles_loop rt this fs (file # files) =
     (case statSync fs (join (path rt) (workspaceRoot this) file) of
        Inl e \<Rightarrow> Inl e
      | Inr stat \<Rightarrow>
          if isFile stat then
            (let ext = toLowerCase rt (extname (path rt) file) in
             if ext \<in> set sourceExtensions \<or> file \<in> set configFiles then Inr True
             else hasSourceFiles_loop rt this fs files)
          else if isDirectory stat then
            (if file \<in> set commonSrcDirs then Inr True
             else hasSourceFiles_loop rt this fs files)
          else hasSourceFiles_loop rt this fs files)"

text \<open>The method \<open>hasSourceFiles\<close>; the plain name is the field of the analysis.\<close>

definition hasSourceFiles_of :: "runtime \<Rightarrow> core \<Rightarrow> filesystem \<Rightarrow> bool" where
  "hasSourceFiles_of rt this fs =
     (case (case readdirSync fs (workspaceRoot this) of
              Inl e \<Rightarrow> Inl e
            | Inr files \<Rightarrow> hasSourceFiles_loop rt this fs files) of
        Inr found \<Rightarrow> found
      | Inl _ \<Rightarrow> False)"

definition backslash :: string where
  "backslash = [CHR 0x5C]"

definition windowsSystemPaths :: "string list" where
  "windowsSystemPaths =
     [''c:'' @ backslash @ ''windows'',
      ''c:'' @ backslash @ ''program files'',
      ''c:'' @ backslash @ ''program files (x86)'',
      ''c:'' @ backslash @ ''programdata'',
      ''c:'' @ backslash @ ''users'' @ backslash @ ''public'',
      ''c:'' @ backslash @ ''system volume information'',
      backslash @ ''appdata'' @ backslash,
      backslash @ ''temp'' @ backslash,
      backslash @ ''tmp'' @ backslash]"

definition unixSystemPaths :: "string list" where
  "unixSystemPaths =
     [''/bin'', ''/sbin'', ''/usr/bin'', ''/usr/sbin'', ''/etc'', ''/var'',
      ''/tmp'', ''/sys'', ''/proc'', ''/dev'', ''/boot'', ''/root'']"

text \<open>The method \<open>isSystemFolder\<close>; the plain name is the field of the analysis.\<close>

definition isSystemFolder_of :: "runtime \<Rightarrow> core \<Rightarrow> bool" where
  "isSystemFolder_of rt this =
     (let pathStr = toLowerCase rt (workspaceRoot this);
          systemPaths = (if isWindows (platformInfo this) then windowsSystemPaths
                         else unixSystemPaths)
      in list_ex (\<lambda>sysPath. str_includes pathStr sysPath) systemPaths)"

definition isGitRepository :: "core \<Rightarrow> filesystem \<Rightarrow> bool" where
  "isGitRepository this fs = existsSync fs (gitPath this)"

text \<open>
  The \<open>while\<close> loop of \<open>isNestedInGitRepo\<close>. Nothing in the loop bounds the number of
  its rounds, so it is a partial function: \<open>None\<close> is a loop that never ends.
\<close>

partial_function (option) isNestedInGitRepo_loop ::
  "runtime \<Rightarrow> filesystem \<Rightarrow> string \<Rightarrow> string \<Rightarrow> bool option" where
  "isNestedInGitRepo_loop rt fs root current =
     (if current \<noteq> root then
        (if existsSync fs (join (path rt) current ''.git'') then Some True
         else isNestedInGitRepo_loop rt fs root (dirname (path rt) current))
      else Some False)"

definition isNestedInGitRepo :: "runtime \<Rightarrow> core \<Rightarrow> filesystem \<Rightarrow> bool option" where
  "isNestedInGitRepo rt this fs =
     (if isGitRepository this fs then Some False
      else
        let current = dirname (path rt) (workspaceRoot this);
            root = parse_root (path rt) current
        in isNestedInGitRepo_loop rt fs root current)"

text \<open>
  The texts of the analysis, each the UTF-8 bytes of the source's literal. The program
  only shows them.
\<close>

definition utf8 :: "nat list \<Rightarrow> string" where
  "utf8 bytes = map char_of bytes"

text \<open>"This folder is already a Git repository."\<close>

definition text_existing_repo :: string where
  "text_existing_repo = utf8
      [0xE3, 0x81, 0x93, 0xE3, 0x81, 0xAE, 0xE3, 0x83, 0x95, 0xE3, 0x82, 0xA9, 0xE3,
       0x83, 0xAB, 0xE3, 0x83, 0x80, 0xE3, 0x81, 0xAF, 0xE6, 0x97, 0xA2, 0xE3, 0x81,
       0xAB, 0x47, 0x69, 0x74, 0xE3, 0x83, 0xAA, 0xE3, 0x83, 0x9D, 0xE3, 0x82, 0xB8,
       0xE3, 0x83, 0x88, 0xE3, 0x83, 0xAA, 0xE3, 0x81, 0xA7, 0xE3, 0x81, 0x99]"

text \<open>"warning sign, then: git init in a system folder is not recommended."\<close>

definition text_system_warning :: string where
  "text_system_warning = utf8
      [0xE2, 0x9A, 0xA0, 0xEF, 0xB8, 0x8F, 0x20, 0xE3, 0x82, 0xB7, 0xE3, 0x82, 0xB9,
       0xE3, 0x83, 0x86, 0xE3, 0x83, 0xA0, 0xE3, 0x83, 0x95, 0xE3, 0x82, 0xA9, 0xE3,
       0x83, 0xAB, 0xE3, 0x83, 0x80, 0xE3, 0x81, 0xA7, 0xE3, 0x81, 0xAE, 0x67, 0x69,
       0x74, 0x20, 0x69, 0x6E, 0x69, 0x74, 0x20, 0xE3, 0x81, 0xAF, 0xE6, 0x8E, 0xA8,
       0xE5, 0xA5, 0xA8, 0xE3, 0x81, 0x95, 0xE3, 0x82, 0x8C, 0xE3, 0x81, 0xBE, 0xE3,
       0x81, 0x9B, 0xE3, 0x82, 0x93]"

text \<open>"Running outside a system folder is recommended."\<close>

definition text_system_advice :: string where
  "text_system_advice = utf8
      [0xE3, 0x82, 0xB7, 0xE3, 0x82, 0xB9, 0xE3, 0x83, 0x86, 0xE3, 0x83, 0xA0, 0xE3,
       0x83, 0x95, 0xE3, 0x82, 0xA9, 0xE3, 0x83, 0xAB, 0xE3, 0x83, 0x80, 0xE4, 0xBB,
       0xA5, 0xE5, 0xA4, 0x96, 0xE3, 0x81, 0xA7, 0xE3, 0x81, 0xAE, 0xE5, 0xAE, 0x9F,
       0xE8, 0xA1, 0x8C, 0xE3, 0x82, 0x92, 0xE3, 0x81, 0x8A, 0xE5, 0x8B, 0xA7, 0xE3,
       0x82, 0x81, 0xE3, 0x81, 0x97, 0xE3, 0x81, 0xBE, 0xE3, 0x81, 0x99]"

text \<open>"warning sign, then: Nested inside an existing Git repository."\<close>

definition text_nested_warning :: string where
  "text_nested_warning = utf8
      [0xE2, 0x9A, 0xA0, 0xEF, 0xB8, 0x8F, 0x20, 0xE6, 0x97, 0xA2, 0xE5, 0xAD, 0x98,
       0xE3, 0x81, 0xAE, 0x47, 0x69, 0x74, 0xE3, 0x83, 0xAA, 0xE3, 0x83, 0x9D, 0xE3,
       0x82, 0xB8, 0xE3, 0x83, 0x88, 0xE3, 0x83, 0xAA, 0xE5, 0x86, 0x85, 0xE3, 0x81,
       0xAB, 0xE3, 0x83, 0x8D, 0xE3, 0x82, 0xB9, 0xE3, 0x83, 0x88, 0xE3, 0x81, 0x95,
       0xE3, 0x82, 0x8C, 0xE3, 0x81, 0xA6, 0xE3, 0x81, 0x84, 0xE3, 0x81, 0xBE, 0xE3,
       0x81, 0x99]"

text \<open>"Add it as a submodule or move it elsewhere."\<close>

definition text_nested_advice :: string where
  "text_nested_advice = utf8
      [0xE3, 0x82, 0xB5, 0xE3, 0x83, 0x96, 0xE3, 0x83, 0xA2, 0xE3, 0x82, 0xB8, 0xE3,
       0x83, 0xA5, 0xE3, 0x83, 0xBC, 0xE3, 0x83, 0xAB, 0xE3, 0x81, 0xA8, 0xE3, 0x81,
       0x97, 0xE3, 0x81, 0xA6, 0xE8, 0xBF, 0xBD, 0xE5, 0x8A, 0xA0, 0xE3, 0x81, 0x99,
       0xE3, 0x82, 0x8B, 0xE3, 0x81, 0x8B, 0xE3, 0x80, 0x81, 0xE5, 0x88, 0xA5, 0xE3,
       0x81, 0xAE, 0xE5, 0xA0, 0xB4, 0xE6, 0x89, 0x80, 0xE3, 0x81, 0xAB, 0xE7, 0xA7,
       0xBB, 0xE5, 0x8B, 0x95, 0xE3, 0x81, 0x97, 0xE3, 0x81, 0xA6, 0xE3, 0x81, 0x8F,
       0xE3, 0x81, 0xA0, 0xE3, 0x81, 0x95, 0xE3, 0x81, 0x84]"

text \<open>"An empty folder. Suited to starting a new project."\<close>

definition text_empty_advice :: string where
  "text_empty_advice = utf8
      [0xE7, 0xA9, 0xBA, 0xE3, 0x81, 0xAE, 0xE3, 0x83, 0x95, 0xE3, 0x82, 0xA9, 0xE3,
       0x83, 0xAB, 0xE3, 0x83, 0x80, 0xE3, 0x81, 0xA7, 0xE3, 0x81, 0x99, 0xE3, 0x80,
       0x82, 0xE6, 0x96, 0xB0, 0xE3, 0x81, 0x97, 0xE3, 0x81, 0x84, 0xE3, 0x83, 0x97,
       0xE3, 0x83, 0xAD, 0xE3, 0x82, 0xB8, 0xE3, 0x82, 0xA7, 0xE3, 0x82, 0xAF, 0xE3,
       0x83, 0x88, 0xE3, 0x81, 0xAE, 0xE9, 0x96, 0x8B, 0xE5, 0xA7, 0x8B, 0xE3, 0x81,
       0xAB, 0xE9, 0x81, 0xA9, 0xE3, 0x81, 0x97, 0xE3, 0x81, 0xA6, 0xE3, 0x81, 0x84,
       0xE3, 0x81, 0xBE, 0xE3, 0x81, 0x99]"

text \<open>"Source files were found. Making it a Git repository is recommended."\<close>

definition text_source_advice :: string where
  "text_source_advice = utf8
      [0xE3, 0x82, 0xBD, 0xE3, 0x83, 0xBC, 0xE3, 0x82, 0xB9, 0xE3, 0x83, 0x95, 0xE3,
       0x82, 0xA1, 0xE3, 0x82, 0xA4, 0xE3, 0x83, 0xAB, 0xE3, 0x81, 0x8C, 0xE8, 0xA6,
       0x8B, 0xE3, 0x81, 0xA4, 0xE3, 0x81, 0x8B, 0xE3, 0x82, 0x8A, 0xE3, 0x81, 0xBE,
       0xE3, 0x81, 0x97, 0xE3, 0x81, 0x9F, 0xE3, 0x80, 0x82, 0x47, 0x69, 0x74, 0xE3,
       0x83, 0xAA, 0xE3, 0x83, 0x9D, 0xE3, 0x82, 0xB8, 0xE3, 0x83, 0x88, 0xE3, 0x83,
       0xAA, 0xE5, 0x8C, 0x96, 0xE3, 0x82, 0x92, 0xE3, 0x81, 0x8A, 0xE5, 0x8B, 0xA7,
       0xE3, 0x82, 0x81, 0xE3, 0x81, 0x97, 0xE3, 0x81, 0xBE, 0xE3, 0x81, 0x99]"

text \<open>"A general folder. It can be made a Git repository if needed."\<close>

definition text_general_advice :: string where
  "text_general_advice = utf8
      [0xE4, 0xB8, 0x80, 0xE8, 0x88, 0xAC, 0xE7, 0x9A, 0x84, 0xE3, 0x81, 0xAA, 0xE3,
       0x83, 0x95, 0xE3, 0x82, 0xA9, 0xE3, 0x83, 0xAB, 0xE3, 0x83, 0x80, 0xE3, 0x81,
       0xA7, 0xE3, 0x81, 0x99, 0xE3, 0x80, 0x82, 0xE5, 0xBF, 0x85, 0xE8, 0xA6, 0x81,
       0xE3, 0x81, 0xAB, 0xE5, 0xBF, 0x9C, 0xE3, 0x81, 0x98, 0xE3, 0x81, 0xA6, 0x47,
       0x69, 0x74, 0xE3, 0x83, 0xAA, 0xE3, 0x83, 0x9D, 0xE3, 0x82, 0xB8, 0xE3, 0x83,
       0x88, 0xE3, 0x83, 0xAA, 0xE5, 0x8C, 0x96, 0xE3, 0x81, 0xA7, 0xE3, 0x81, 0x8D,
       0xE3, 0x81, 0xBE, 0xE3, 0x81, 0x99]"

definition analyzeCurrentDirectory ::
  "runtime \<Rightarrow> core \<Rightarrow> filesystem \<Rightarrow> DirectoryAnalysis option" where
  "analyzeCurrentDirectory rt this fs =
     (case isNestedInGitRepo rt this fs of
        None \<Rightarrow> None
      | Some nested \<Rightarrow>
          let analysis =
                \<lparr>isGitRepo = isGitRepository this fs,
                 isEmpty = isDirectoryEmpty this fs,
                 hasSourceFiles = hasSourceFiles_of rt this fs,
                 isSystemFolder = isSystemFolder_of rt this,
                 isNestedRepo = nested,
                 folderType = ''unknown'',
                 gitInitRecommended = False,
                 warningMessage = None,
                 actionRecommendation = []\<rparr>
          in Some
               (if isGitRepo analysis then
                  analysis\<lparr>folderType := ''existing_git_repo'',
                           actionRecommendation := text_existing_repo\<rparr>
                else if isSystemFolder analysis then
                  analysis\<lparr>folderType := ''system_folder'',
                           warningMessage := Some text_system_warning,
                           actionRecommendation := text_system_advice\<rparr>
                else if isNestedRepo analysis then
                  analysis\<lparr>folderType := ''nested_in_repo'',
                           warningMessage := Some text_nested_warning,
                           actionRecommendation := text_nested_advice\<rparr>
                else if isEmpty analysis then
                  analysis\<lparr>folderType := ''empty_folder'',
                           gitInitRecommended := True,
                           actionRecommendation := text_empty_advice\<rparr>
                else if hasSourceFiles analysis then
                  analysis\<lparr>folderType := ''source_project'',
                           gitInitRecommended := True,
                           actionRecommendation := text_source_advice\<rparr>
                else
                  analysis\<lparr>folderType := ''general_folder'',
                           gitInitRecommended := True,
                           actionRecommendation := text_general_advice\<rparr>))"

section \<open>The extension's choice of the workspace root\<close>

text \<open>
  \<open>getWorkspaceRoot\<close> of the extension. \<open>workspaceFolders\<close> is the list of the open
  folders' paths, \<open>None\<close> when the editor has none. The loop looks for the first folder
  with a \<open>.git\<close> entry that is a directory; \<open>statSync\<close> is not guarded here, so its
  exception (\<open>Inl\<close>) leaves the function.
\<close>

fun getWorkspaceRoot_loop :: "filesystem \<Rightarrow> string list \<Rightarrow> fs_error + string option" where
  "getWorkspaceRoot_loop fs [] = Inr None"
| "getWorkspaceRoot_loop fs (folder # folders) =
     (let gitPath = folder @ ''/.git'' in
      if existsSync fs gitPath then
        (case statSync fs gitPath of
           Inl e \<Rightarrow> Inl e
         | Inr st \<Rightarrow> if isDirectory st then Inr (Some folder)
                     else getWorkspaceRoot_loop fs folders)
      else getWorkspaceRoot_loop fs folders)"

definition getWorkspaceRoot :: "filesystem \<Rightarrow> string list option \<Rightarrow> fs_error + string" where
  "getWorkspaceRoot fs workspaceFolders =
     (case workspaceFolders of
        None \<Rightarrow> Inr []
      | Some folders \<Rightarrow>
          if length folders = 0 then Inr []
          else if length folders = 1 then Inr (folders ! 0)
          else (case getWorkspaceRoot_loop fs folders of
                  Inl e \<Rightarrow> Inl e
                | Inr (Some folder) \<Rightarrow> Inr folder
                | Inr None \<Rightarrow> Inr (folders ! 0)))"

section \<open>The standalone scripts\<close>

text \<open>
  The variables the argument loops of the scripts set. All three start empty.
\<close>

record script_args =
  COMMIT_MESSAGE :: string
  BRANCH :: string
  FORCE_PUSH :: string

definition no_args :: script_args where
  "no_args = \<lparr>COMMIT_MESSAGE = [], BRANCH = [], FORCE_PUSH = []\<rparr>"



text \<open>
  The batch script that takes the repository path as its first parameter. It leaves with
  status 1 when \<open>%1\<close> is empty. Its loop starts with a \<open>shift\<close> at the label, which
  drops the head of the list on every round before \<open>%1\<close> is examined.
\<close>

fun bat_github_parse_args :: "script_args \<Rightarrow> string list \<Rightarrow> script_args" where
  "bat_github_parse_args v [] = v"
| "bat_github_parse_args v [x] = v"
| "bat_github_parse_args v (x # a # rest) =
     (if a = ''-m'' then
        bat_github_parse_args (v\<lparr>COMMIT_MESSAGE := (case rest of [] \<Rightarrow> [] | b # _ \<Rightarrow> b)\<rparr>)
          (drop 1 rest)
      else if a = ''-b'' then
        bat_github_parse_args (v\<lparr>BRANCH := (case rest of [] \<Rightarrow> [] | b # _ \<Rightarrow> b)\<rparr>)
          (drop 1 rest)
      else if a = ''-f'' then bat_github_parse_args (v\<lparr>FORCE_PUSH := ''--force''\<rparr>) rest
      else bat_github_parse_args v rest)"

definition bat_github_start :: "string list \<Rightarrow> nat + string \<times> script_args" where
  "bat_github_start args =
     (case args of
        [] \<Rightarrow> Inl 1
      | REPO_PATH # _ \<Rightarrow> Inr (REPO_PATH, bat_github_parse_args no_args args))"

section \<open>Notions used in the statements\<close>

text \<open>\<open>path.posix.isAbsolute\<close>.\<close>

definition isAbsolute :: "string \<Rightarrow> bool" where
  "isAbsolute p = (0 < length p \<and> p ! 0 = CHR ''/'')"

text \<open>
  On a POSIX host: the directories \<open>dir\<close>, \<open>dirname dir\<close>, \<open>dirname (dirname dir)\<close>,
  ... up to the root \<open>/\<close>, the root left out; \<open>n\<close> bounds their number.
\<close>

fun ancestors_from :: "nat \<Rightarrow> string \<Rightarrow> string list" where
  "ancestors_from 0 dir = []"
| "ancestors_from (Suc n) dir =
     (if dir = ''/'' then [] else dir # ancestors_from n (posix_dirname dir))"

text \<open>The parent directories of \<open>p\<close> that lie strictly below the root, nearest first.\<close>

definition ancestors_below_root :: "string \<Rightarrow> string list" where
  "ancestors_below_root p = ancestors_from (length p) (posix_dirname p)"




section \<open>Example inputs\<close>

text \<open>
  A runtime on a POSIX host; the examples hold ASCII text only, which \<open>toLowerCase\<close>
  lower-cases letter by letter.
\<close>

definition posix_runtime :: runtime where
  "posix_runtime = \<lparr>path = posix, toLowerCase = ascii_toLowerCase\<rparr>"

text \<open>
  A core object for a project directory on Linux, a session in which no command has run
  yet, a platform whose \<open>exec\<close> answers every command with the same outcome, and one
  whose git does not know \<open>git branch --show-current\<close> (the option came with git 2.22)
  while every other command succeeds.
\<close>

definition linux :: PlatformInfo where
  "linux = detectPlatform posix_runtime ''linux'' ''6.1.0'' None"

definition example_core :: core where
  "example_core = GitAutoPushCore posix_runtime ''/home/user/project'' linux"

definition start_session :: "unit session" where
  "start_session = \<lparr>world = (), invoked = []\<rparr>"

definition answering :: "exec_outcome \<Rightarrow> unit exec" where
  "answering outcome = (\<lambda>opts command w. (outcome, w))"

definition without_show_current :: "unit exec" where
  "without_show_current =
     (\<lambda>opts command w.
        if command = ''git branch --show-current''
        then (Callback (Some (ExitCode 129)) [] ''error: unknown option'', w)
        else (Callback None [] [], w))"

text \<open>
  Outputs of \<open>git status --porcelain=v1 --branch\<close>: a branch that has diverged from its
  upstream (with one changed file listed after the branch line), a branch that is behind,
  one that is ahead, and one that is in sync.
\<close>

definition status_diverged :: string where
  "status_diverged =
     ''## main...origin/main [ahead 1, behind 2]'' @ [CHR 0x0A] @ '' M README.md'' @ [CHR 0x0A]"

definition status_behind :: string where
  "status_behind = ''## main...origin/main [behind 3]'' @ [CHR 0x0A]"

definition status_ahead :: string where
  "status_ahead = ''## main...origin/main [ahead 1]'' @ [CHR 0x0A]"

definition status_in_sync :: string where
  "status_in_sync = ''## main...origin/main'' @ [CHR 0x0A]"

text \<open>
  An output whose branch line has neither marker, while the names of two changed files
  below it contain "behind" and "ahead".
\<close>

definition status_markers_below :: string where
  "status_markers_below =
     ''## main...origin/main'' @ [CHR 0x0A] @ '' M docs/behind-schedule.md'' @ [CHR 0x0A]
       @ ''?? ahead.txt'' @ [CHR 0x0A]"

definition after_status_query :: "unit session" where
  "after_status_query = \<lparr>world = (), invoked = [''git status --porcelain=v1 --branch'']\<rparr>"

text \<open>
  File systems: an empty directory \<open>/home/user/repo/sub\<close> inside the repository
  \<open>/home/user/repo\<close>; the repository \<open>/home/user/project\<close> with a manifest; a directory
  \<open>/project\<close> under a root that is itself a repository, once with a file in it and once
  empty; a linked worktree, whose \<open>.git\<close> is a regular file, next to a plain folder; and
  a directory \<open>project\<close> named by a relative path, with one file and no repository
  around it; and a file system in which nothing can be listed.
\<close>

definition fs_nested_empty :: filesystem where
  "fs_nested_empty =
     \<lparr>existsSync = (\<lambda>p. p \<in> set [''/'', ''/home'', ''/home/user'', ''/home/user/repo'',
                                  ''/home/user/repo/.git'', ''/home/user/repo/sub'']),
      readdirSync = (\<lambda>p. if p = ''/home/user/repo/sub'' then Inr []
                          else if p = ''/home/user/repo'' then Inr [''.git'', ''sub'']
                          else Inl (FsError ''ENOENT'')),
      statSync = (\<lambda>p. if p \<in> set [''/'', ''/home'', ''/home/user'', ''/home/user/repo'',
                                  ''/home/user/repo/.git'', ''/home/user/repo/sub'']
                       then Inr Directory else Inl (FsError ''ENOENT''))\<rparr>"

definition fs_project_repo :: filesystem where
  "fs_project_repo =
     \<lparr>existsSync = (\<lambda>p. p \<in> set [''/'', ''/home'', ''/home/user'', ''/home/user/project'',
                                  ''/home/user/project/.git'', ''/home/user/project/package.json'']),
      readdirSync = (\<lambda>p. if p = ''/home/user/project'' then Inr [''.git'', ''package.json'']
                          else Inl (FsError ''ENOENT'')),
      statSync = (\<lambda>p. if p = ''/home/user/project/package.json'' then Inr File
                       else if p \<in> set [''/'', ''/home'', ''/home/user'', ''/home/user/project'',
                                        ''/home/user/project/.git'']
                       then Inr Directory else Inl (FsError ''ENOENT''))\<rparr>"

definition fs_repo_at_root :: filesystem where
  "fs_repo_at_root =
     \<lparr>existsSync = (\<lambda>p. p \<in> set [''/'', ''/.git'', ''/project'']),
      readdirSync = (\<lambda>p. if p = ''/project'' then Inr [''notes'']
                          else if p = ''/'' then Inr [''.git'', ''project'']
                          else Inl (FsError ''ENOENT'')),
      statSync = (\<lambda>p. if p \<in> set [''/'', ''/.git'', ''/project'']
                       then Inr Directory else Inl (FsError ''ENOENT''))\<rparr>"

definition fs_empty_under_root_repo :: filesystem where
  "fs_empty_under_root_repo =
     \<lparr>existsSync = (\<lambda>p. p \<in> set [''/'', ''/.git'', ''/project'']),
      readdirSync = (\<lambda>p. if p = ''/project'' then Inr []
                          else if p = ''/'' then Inr [''.git'', ''project'']
                          else Inl (FsError ''ENOENT'')),
      statSync = (\<lambda>p. if p \<in> set [''/'', ''/.git'', ''/project'']
                       then Inr Directory else Inl (FsError ''ENOENT''))\<rparr>"

definition fs_git_file :: filesystem where
  "fs_git_file =
     \<lparr>existsSync = (\<lambda>p. p \<in> set [''/'', ''/home'', ''/home/user'', ''/home/user/other'',
                                  ''/home/user/worktree'', ''/home/user/worktree/.git'']),
      readdirSync = (\<lambda>p. if p = ''/home/user/worktree'' then Inr [''.git'']
                          else if p = ''/home/user/other'' then Inr []
                          else Inl (FsError ''EACCES'')),
      statSync = (\<lambda>p. if p = ''/home/user/worktree/.git'' then Inr File
                       else if p \<in> set [''/'', ''/home'', ''/home/user'', ''/home/user/other'',
                                        ''/home/user/worktree'']
                       then Inr Directory else Inl (FsError ''ENOENT''))\<rparr>"

definition fs_relative_project :: filesystem where
  "fs_relative_project =
     \<lparr>existsSync = (\<lambda>p. p \<in> set [''.'', ''project'', ''project/notes.txt'']),
      readdirSync = (\<lambda>p. if p = ''project'' then Inr [''notes.txt'']
                          else if p = ''.'' then Inr [''project'']
                          else Inl (FsError ''ENOENT'')),
      statSync = (\<lambda>p. if p = ''project/notes.txt'' then Inr File
                       else if p \<in> set [''.'', ''project''] then Inr Directory
                       else Inl (FsError ''ENOENT''))\<rparr>"

definition fs_unreadable :: filesystem where
  "fs_unreadable =
     \<lparr>existsSync = (\<lambda>p. p \<in> set [''/'', ''/home'', ''/home/user'', ''/home/user/locked'']),
      readdirSync = (\<lambda>p. Inl (FsError ''EACCES'')),
      statSync = (\<lambda>p. Inl (FsError ''EACCES''))\<rparr>"

section \<open>Properties\<close>

lemma str_includes_iff: "str_includes s sub \<longleftrightarrow> (\<exists>a b. s = a @ sub @ b)"
proof (induction s)
  case Nil
  show ?case by auto
next
  case (Cons c cs)
  show ?case
  proof
    assume "str_includes (c # cs) sub"
    then consider "prefix sub (c # cs)" | "str_includes cs sub" by auto
    then show "\<exists>a b. c # cs = a @ sub @ b"
    proof cases
      case 1
      then obtain b where "c # cs = sub @ b" by (auto simp: prefix_def)
      then have "c # cs = [] @ sub @ b" by simp
      then show ?thesis by blast
    next
      case 2
      then obtain a b where "cs = a @ sub @ b" using Cons.IH by auto
      then have "c # cs = (c # a) @ sub @ b" by simp
      then show ?thesis by blast
    qed
  next
    assume "\<exists>a b. c # cs = a @ sub @ b"
    then obtain a b where ab: "c # cs = a @ sub @ b" by auto
    show "str_includes (c # cs) sub"
    proof (cases a)
      case Nil
      with ab have "prefix sub (c # cs)" by (simp add: prefix_def)
      then show ?thesis by simp
    next
      case (Cons x a')
      with ab have "cs = a' @ sub @ b" by simp
      then show ?thesis using Cons.IH by auto
    qed
  qed
qed

subsection \<open>The command runner\<close>

lemma runCommand_invoked:
  "invoked (snd (runCommand exec this command s)) = invoked s @ [command]"
  by (simp add: runCommand_def split: prod.splits)

lemma runCommand_result:
  "fst (runCommand exec this command s) =
     (case fst (exec (runCommand_options this) command (world s)) of
        Callback err out errout \<Rightarrow>
          \<lparr>success = (err = None), stdout = out, stderr = errout,
           error = map_option ExecError err\<rparr>
      | Throws errorMessage \<Rightarrow>
          \<lparr>success = False, stdout = [], stderr = errorMessage,
           error = Some (Caught errorMessage)\<rparr>)"
  by (simp add: runCommand_def case_prod_unfold)

lemma runCommand_success_iff:
  "success (fst (runCommand exec this command s)) \<longleftrightarrow>
     (\<exists>out errout. fst (exec (runCommand_options this) command (world s)) = Callback None out errout)"
  by (simp add: runCommand_result split: exec_outcome.splits)

text \<open>
  C8: \<open>runCommand\<close> gives a \<open>CommandResult\<close> for every behaviour of \<open>exec\<close>. It passes a
  timeout of 300000 ms (five minutes) and a buffer capacity of 10485760 bytes (10 MiB)
  with every invocation. The result has \<open>success = true\<close> exactly when \<open>exec\<close> called
  back without an error; when \<open>exec\<close> called back with an error (a timeout, an
  overflowing buffer, a failed start, a non-zero exit status) the result is
  \<open>success = false\<close> with the captured output, and when \<open>exec\<close> threw, the result is
  \<open>success = false\<close> with the exception's message as standard error.
\<close>

theorem runCommand_resolves:
  "timeout (runCommand_options this) = 300000
   \<and> maxBuffer (runCommand_options this) = 10485760
   \<and> cwd (runCommand_options this) = workspaceRoot this
   \<and> invoked (snd (runCommand exec this command s)) = invoked s @ [command]
   \<and> (success (fst (runCommand exec this command s)) \<longleftrightarrow>
        (\<exists>out errout. fst (exec (runCommand_options this) command (world s))
                         = Callback None out errout))
   \<and> (\<forall>e out errout.
        fst (exec (runCommand_options this) command (world s)) = Callback (Some e) out errout
        \<longrightarrow> fst (runCommand exec this command s)
              = \<lparr>success = False, stdout = out, stderr = errout, error = Some (ExecError e)\<rparr>)
   \<and> (\<forall>message.
        fst (exec (runCommand_options this) command (world s)) = Throws message
        \<longrightarrow> fst (runCommand exec this command s)
              = \<lparr>success = False, stdout = [], stderr = message,
                 error = Some (Caught message)\<rparr>)"
proof (intro conjI allI impI)
  show "timeout (runCommand_options this) = 300000" by (simp add: runCommand_options_def)
  show "maxBuffer (runCommand_options this) = 10485760" by (simp add: runCommand_options_def)
  show "cwd (runCommand_options this) = workspaceRoot this" by (simp add: runCommand_options_def)
  show "invoked (snd (runCommand exec this command s)) = invoked s @ [command]"
    by (rule runCommand_invoked)
  show "success (fst (runCommand exec this command s)) \<longleftrightarrow>
        (\<exists>out errout. fst (exec (runCommand_options this) command (world s))
                         = Callback None out errout)"
    by (rule runCommand_success_iff)
next
  fix e out errout
  assume "fst (exec (runCommand_options this) command (world s)) = Callback (Some e) out errout"
  then show "fst (runCommand exec this command s)
              = \<lparr>success = False, stdout = out, stderr = errout, error = Some (ExecError e)\<rparr>"
    by (simp add: runCommand_result)
next
  fix message
  assume "fst (exec (runCommand_options this) command (world s)) = Throws message"
  then show "fst (runCommand exec this command s)
              = \<lparr>success = False, stdout = [], stderr = message,
                 error = Some (Caught message)\<rparr>"
    by (simp add: runCommand_result)
qed

theorem runCommand_resolves_witness:
  "fst (answering (Callback (Some KilledOnTimeout) ''partial'' []) (runCommand_options example_core)
          ''git push'' (world start_session)) = Callback (Some KilledOnTimeout) ''partial'' []
   \<and> fst (runCommand (answering (Callback (Some KilledOnTimeout) ''partial'' [])) example_core
          ''git push'' start_session)
       = \<lparr>success = False, stdout = ''partial'', stderr = [],
          error = Some (ExecError KilledOnTimeout)\<rparr>
   \<and> fst (answering (Callback (Some MaxBufferExceeded) ''partial'' []) (runCommand_options example_core)
          ''git push'' (world start_session)) = Callback (Some MaxBufferExceeded) ''partial'' []
   \<and> fst (runCommand (answering (Callback (Some MaxBufferExceeded) ''partial'' [])) example_core
          ''git push'' start_session)
       = \<lparr>success = False, stdout = ''partial'', stderr = [],
          error = Some (ExecError MaxBufferExceeded)\<rparr>
   \<and> fst (answering (Throws ''spawn failed'') (runCommand_options example_core)
          ''git push'' (world start_session)) = Throws ''spawn failed''
   \<and> fst (runCommand (answering (Throws ''spawn failed'')) example_core ''git push'' start_session)
       = \<lparr>success = False, stdout = [], stderr = ''spawn failed'',
          error = Some (Caught ''spawn failed'')\<rparr>"
  using runCommand_resolves
     [of example_core "answering (Callback (Some KilledOnTimeout) ''partial'' [])" "''git push''"
        start_session]
    runCommand_resolves
     [of example_core "answering (Callback (Some MaxBufferExceeded) ''partial'' [])" "''git push''"
        start_session]
    runCommand_resolves
     [of example_core "answering (Throws ''spawn failed'')" "''git push''" start_session]
  by (simp add: answering_def)

subsection \<open>Detecting divergence\<close>

lemma branchInfo_first_line:
  "branchInfo out = takeWhile (\<lambda>c. c \<noteq> CHR 0x0A) (trim out)"
proof -
  have "(case split (CHR 0x0A) s of [] \<Rightarrow> [] | line # _ \<Rightarrow> line)
          = takeWhile (\<lambda>c. c \<noteq> CHR 0x0A) s" for s
    by (induction s) (auto split: list.splits)
  then show ?thesis by (simp add: branchInfo_def Let_def)
qed

text \<open>
  C2: \<open>checkBranchDivergence\<close> runs the status query once. When the query fails it
  returns false. When it succeeds, the answer depends on the first line of the trimmed
  output alone, that is, on the characters before the first line feed: true when that
  line contains both "ahead" and "behind", true when it contains only "behind", false
  when it contains only "ahead", false when it contains neither.
\<close>

theorem checkBranchDivergence_table:
  assumes "runCommand exec this ''git status --porcelain=v1 --branch'' s = (result, s')"
    and "firstLine = takeWhile (\<lambda>c. c \<noteq> CHR 0x0A) (trim (stdout result))"
  shows "snd (checkBranchDivergence exec this s) = s' \<and>
    (\<not> success result \<longrightarrow> fst (checkBranchDivergence exec this s) = False) \<and>
    (success result \<and> str_includes firstLine ''ahead'' \<and> str_includes firstLine ''behind''
       \<longrightarrow> fst (checkBranchDivergence exec this s) = True) \<and>
    (success result \<and> \<not> str_includes firstLine ''ahead'' \<and> str_includes firstLine ''behind''
       \<longrightarrow> fst (checkBranchDivergence exec this s) = True) \<and>
    (success result \<and> str_includes firstLine ''ahead'' \<and> \<not> str_includes firstLine ''behind''
       \<longrightarrow> fst (checkBranchDivergence exec this s) = False) \<and>
    (success result \<and> \<not> str_includes firstLine ''ahead'' \<and> \<not> str_includes firstLine ''behind''
       \<longrightarrow> fst (checkBranchDivergence exec this s) = False)"
  using assms by (simp add: checkBranchDivergence_def branchInfo_first_line Let_def)

lemma run_answering:
  "runCommand (answering (Callback err out errout)) example_core command start_session =
     (\<lparr>success = (err = None), stdout = out, stderr = errout, error = map_option ExecError err\<rparr>,
      \<lparr>world = (), invoked = [command]\<rparr>)"
  by (simp add: runCommand_def answering_def start_session_def)

lemma first_line_examples:
  "takeWhile (\<lambda>c. c \<noteq> CHR 0x0A) (trim status_diverged)
     = ''## main...origin/main [ahead 1, behind 2]''"
  "takeWhile (\<lambda>c. c \<noteq> CHR 0x0A) (trim status_behind) = ''## main...origin/main [behind 3]''"
  "takeWhile (\<lambda>c. c \<noteq> CHR 0x0A) (trim status_ahead) = ''## main...origin/main [ahead 1]''"
  "takeWhile (\<lambda>c. c \<noteq> CHR 0x0A) (trim status_in_sync) = ''## main...origin/main''"
  "takeWhile (\<lambda>c. c \<noteq> CHR 0x0A) (trim status_markers_below) = ''## main...origin/main''"
  by code_simp+

lemma markers_below_first_line:
  "str_includes status_markers_below ''ahead''"
  "str_includes status_markers_below ''behind''"
  by code_simp+

theorem checkBranchDivergence_table_witness:
  "str_includes (takeWhile (\<lambda>c. c \<noteq> CHR 0x0A) (trim status_diverged)) ''ahead''
   \<and> str_includes (takeWhile (\<lambda>c. c \<noteq> CHR 0x0A) (trim status_diverged)) ''behind''
   \<and> checkBranchDivergence (answering (Callback None status_diverged [])) example_core start_session
       = (True, after_status_query)
   \<and> \<not> str_includes (takeWhile (\<lambda>c. c \<noteq> CHR 0x0A) (trim status_behind)) ''ahead''
   \<and> str_includes (takeWhile (\<lambda>c. c \<noteq> CHR 0x0A) (trim status_behind)) ''behind''
   \<and> checkBranchDivergence (answering (Callback None status_behind [])) example_core start_session
       = (True, after_status_query)
   \<and> str_includes (takeWhile (\<lambda>c. c \<noteq> CHR 0x0A) (trim status_ahead)) ''ahead''
   \<and> \<not> str_includes (takeWhile (\<lambda>c. c \<noteq> CHR 0x0A) (trim status_ahead)) ''behind''
   \<and> checkBranchDivergence (answering (Callback None status_ahead [])) example_core start_session
       = (False, after_status_query)
   \<and> \<not> str_includes (takeWhile (\<lambda>c. c \<noteq> CHR 0x0A) (trim status_in_sync)) ''ahead''
   \<and> \<not> str_includes (takeWhile (\<lambda>c. c \<noteq> CHR 0x0A) (trim status_in_sync)) ''behind''
   \<and> checkBranchDivergence (answering (Callback None status_in_sync [])) example_core start_session
       = (False, after_status_query)
   \<and> str_includes status_markers_below ''ahead''
   \<and> str_includes status_markers_below ''behind''
   \<and> \<not> str_includes (takeWhile (\<lambda>c. c \<noteq> CHR 0x0A) (trim status_markers_below)) ''ahead''
   \<and> \<not> str_includes (takeWhile (\<lambda>c. c \<noteq> CHR 0x0A) (trim status_markers_below)) ''behind''
   \<and> checkBranchDivergence (answering (Callback None status_markers_below [])) example_core
         start_session
       = (False, after_status_query)
   \<and> checkBranchDivergence
         (answering (Callback (Some (ExitCode 128)) [] ''fatal: not a git repository''))
         example_core start_session
       = (False, after_status_query)"
proof -
  note t = checkBranchDivergence_table [OF run_answering refl]
  have d: "str_includes (takeWhile (\<lambda>c. c \<noteq> CHR 0x0A) (trim status_diverged)) ''ahead''"
    "str_includes (takeWhile (\<lambda>c. c \<noteq> CHR 0x0A) (trim status_diverged)) ''behind''"
    by (simp_all add: first_line_examples)
  have b: "\<not> str_includes (takeWhile (\<lambda>c. c \<noteq> CHR 0x0A) (trim status_behind)) ''ahead''"
    "str_includes (takeWhile (\<lambda>c. c \<noteq> CHR 0x0A) (trim status_behind)) ''behind''"
    by (simp_all add: first_line_examples)
  have a: "str_includes (takeWhile (\<lambda>c. c \<noteq> CHR 0x0A) (trim status_ahead)) ''ahead''"
    "\<not> str_includes (takeWhile (\<lambda>c. c \<noteq> CHR 0x0A) (trim status_ahead)) ''behind''"
    by (simp_all add: first_line_examples)
  have n: "\<not> str_includes (takeWhile (\<lambda>c. c \<noteq> CHR 0x0A) (trim status_in_sync)) ''ahead''"
    "\<not> str_includes (takeWhile (\<lambda>c. c \<noteq> CHR 0x0A) (trim status_in_sync)) ''behind''"
    by (simp_all add: first_line_examples)
  have m: "\<not> str_includes (takeWhile (\<lambda>c. c \<noteq> CHR 0x0A) (trim status_markers_below)) ''ahead''"
    "\<not> str_includes (takeWhile (\<lambda>c. c \<noteq> CHR 0x0A) (trim status_markers_below)) ''behind''"
    by (simp_all add: first_line_examples)
  have 1: "checkBranchDivergence (answering (Callback None status_diverged [])) example_core
             start_session = (True, after_status_query)"
    using t [of None status_diverged "[]"] d by (simp add: prod_eq_iff after_status_query_def)
  have 2: "checkBranchDivergence (answering (Callback None status_behind [])) example_core
             start_session = (True, after_status_query)"
    using t [of None status_behind "[]"] b by (simp add: prod_eq_iff after_status_query_def)
  have 3: "checkBranchDivergence (answering (Callback None status_ahead [])) example_core
             start_session = (False, after_status_query)"
    using t [of None status_ahead "[]"] a by (simp add: prod_eq_iff after_status_query_def)
  have 4: "checkBranchDivergence (answering (Callback None status_in_sync [])) example_core
             start_session = (False, after_status_query)"
    using t [of None status_in_sync "[]"] n by (simp add: prod_eq_iff after_status_query_def)
  have 5: "checkBranchDivergence (answering (Callback None status_markers_below [])) example_core
             start_session = (False, after_status_query)"
    using t [of None status_markers_below "[]"] m by (simp add: prod_eq_iff after_status_query_def)
  have 6: "checkBranchDivergence
             (answering (Callback (Some (ExitCode 128)) [] ''fatal: not a git repository''))
             example_core start_session = (False, after_status_query)"
    using t [of "Some (ExitCode 128)" "[]" "''fatal: not a git repository''"]
    by (simp add: prod_eq_iff after_status_query_def)
  from d b a n m markers_below_first_line 1 2 3 4 5 6 show ?thesis by simp
qed

lemma branchInfo_behind_proxy:
  "branchInfo (''## fix/behind-proxy...origin/fix/behind-proxy'' @ [CHR 0x0A])
     = ''## fix/behind-proxy...origin/fix/behind-proxy''"
  by code_simp

text \<open>
  C10: the answer of \<open>checkBranchDivergence\<close> is fixed by whether the word "behind"
  occurs anywhere in the first line of the output of a successful status query, whatever
  the line otherwise says. For the branch \<open>fix/behind-proxy\<close>, in sync with its upstream
  \<open>origin/fix/behind-proxy\<close>, the answer is true.
\<close>

theorem checkBranchDivergence_raw_substring:
  "fst (checkBranchDivergence exec this s) =
     (success (fst (runCommand exec this ''git status --porcelain=v1 --branch'' s)) \<and>
      str_includes
        (branchInfo (stdout (fst (runCommand exec this ''git status --porcelain=v1 --branch'' s))))
        ''behind'')
   \<and> fst (checkBranchDivergence
            (answering (Callback None (''## fix/behind-proxy...origin/fix/behind-proxy'' @ [CHR 0x0A]) []))
            example_core start_session) = True"
proof
  show "fst (checkBranchDivergence exec this s) =
     (success (fst (runCommand exec this ''git status --porcelain=v1 --branch'' s)) \<and>
      str_includes
        (branchInfo (stdout (fst (runCommand exec this ''git status --porcelain=v1 --branch'' s))))
        ''behind'')"
    by (simp add: checkBranchDivergence_def Let_def split: prod.splits)
  show "fst (checkBranchDivergence
            (answering (Callback None (''## fix/behind-proxy...origin/fix/behind-proxy'' @ [CHR 0x0A]) []))
            example_core start_session) = True"
    using branchInfo_behind_proxy
    by (simp add: checkBranchDivergence_def runCommand_def answering_def Let_def)
qed

subsection \<open>Resolving divergence\<close>

lemma handle_dismissed:
  "handleBranchDivergence exec this None confirmed s = (False, s)"
  by (simp add: handleBranchDivergence_def)

lemma handle_force_declined:
  "confirmed \<noteq> Some answer_yes \<Longrightarrow>
   handleBranchDivergence exec this (Some ''git push --force-with-lease'') confirmed s = (False, s)"
  by (simp add: handleBranchDivergence_def)

lemma handle_skip:
  "handleBranchDivergence exec this (Some label_skip) confirmed s = (True, s)"
  by (simp add: handleBranchDivergence_def label_skip_def)

lemma handle_rebase:
  "handleBranchDivergence exec this (Some ''git pull --rebase'') confirmed s =
     (success (fst (runCommand exec this ''git pull --rebase'' s)),
      snd (runCommand exec this ''git pull --rebase'' s))"
  by (simp add: handleBranchDivergence_def pullRebase_def split: prod.splits)

lemma handle_merge:
  "handleBranchDivergence exec this (Some ''git pull'') confirmed s =
     (success (fst (runCommand exec this ''git pull'' s)),
      snd (runCommand exec this ''git pull'' s))"
  by (simp add: handleBranchDivergence_def pullMerge_def split: prod.splits)

lemma handle_force_confirmed:
  "handleBranchDivergence exec this (Some ''git push --force-with-lease'') (Some answer_yes) s =
     (let b = runCommand exec this ''git branch --show-current'' s;
          currentBranch = (if success (fst b) then trim (stdout (fst b)) else ''main'');
          p = runCommand exec this (''git push --force-with-lease origin '' @ currentBranch) (snd b)
      in (success (fst p), snd p))"
  by (simp add: handleBranchDivergence_def forcePush_def Let_def split: prod.splits)

lemma trim_main: "trim ''main'' = ''main''"
  by code_simp

text \<open>
  C3, as the code has it: \<open>handleBranchDivergence\<close> returns false and runs no command
  when the quick pick is dismissed, and when a forced push is picked and the warning is
  not answered with "yes"; it returns true and runs no command for "skip". For the
  rebasing pull and for the merging pull it runs that one command and returns whether it
  succeeded. For a confirmed forced push it runs \<open>git branch --show-current\<close> and then
  the push of the branch that the query printed, or of \<open>main\<close> when the query failed,
  and returns whether the push succeeded.
\<close>

theorem handleBranchDivergence_strategies:
  "handleBranchDivergence exec this None confirmed s = (False, s)
   \<and> (confirmed \<noteq> Some answer_yes \<longrightarrow>
        handleBranchDivergence exec this (Some ''git push --force-with-lease'') confirmed s
          = (False, s))
   \<and> handleBranchDivergence exec this (Some label_skip) confirmed s = (True, s)
   \<and> handleBranchDivergence exec this (Some ''git pull --rebase'') confirmed s =
       (success (fst (runCommand exec this ''git pull --rebase'' s)),
        snd (runCommand exec this ''git pull --rebase'' s))
   \<and> handleBranchDivergence exec this (Some ''git pull'') confirmed s =
       (success (fst (runCommand exec this ''git pull'' s)),
        snd (runCommand exec this ''git pull'' s))
   \<and> handleBranchDivergence exec this (Some ''git push --force-with-lease'') (Some answer_yes) s =
       (let b = runCommand exec this ''git branch --show-current'' s;
            currentBranch = (if success (fst b) then trim (stdout (fst b)) else ''main'');
            p = runCommand exec this (''git push --force-with-lease origin '' @ currentBranch) (snd b)
        in (success (fst p), snd p))"
  by (intro conjI impI)
    (rule handle_dismissed, erule handle_force_declined, rule handle_skip, rule handle_rebase,
     rule handle_merge, rule handle_force_confirmed)

theorem handleBranchDivergence_strategies_witness:
  "Some answer_no \<noteq> Some answer_yes
   \<and> handleBranchDivergence (answering (Callback None [] [])) example_core
        (Some ''git push --force-with-lease'') (Some answer_no) start_session
       = (False, start_session)
   \<and> handleBranchDivergence (answering (Callback (Some (ExitCode 1)) [] ''CONFLICT'')) example_core
        (Some ''git pull --rebase'') None start_session
       = (False, \<lparr>world = (), invoked = [''git pull --rebase'']\<rparr>)
   \<and> handleBranchDivergence (answering (Callback None ''main'' [])) example_core
        (Some ''git push --force-with-lease'') (Some answer_yes) start_session
       = (True, \<lparr>world = (), invoked = [''git branch --show-current'',
                                         ''git push --force-with-lease origin main'']\<rparr>)"
  using handleBranchDivergence_strategies
    [of "answering (Callback None [] [])" example_core "Some answer_no" start_session]
    handleBranchDivergence_strategies
    [of "answering (Callback (Some (ExitCode 1)) [] ''CONFLICT'')" example_core None start_session]
    handleBranchDivergence_strategies
    [of "answering (Callback None ''main'' [])" example_core "Some answer_yes" start_session]
  by (simp add: answer_no_def answer_yes_def runCommand_def answering_def start_session_def
      trim_main Let_def)

text \<open>
  C3 as stated fails: with a confirmed forced push, a failing underlying command (the
  query for the current branch) does not make the result false when the push succeeds.
\<close>

theorem handleBranchDivergence_counterexample:
  "\<not> success (fst (runCommand without_show_current example_core
                     ''git branch --show-current'' start_session))
   \<and> handleBranchDivergence without_show_current example_core
        (Some ''git push --force-with-lease'') (Some answer_yes) start_session
       = (True, \<lparr>world = (), invoked = [''git branch --show-current'',
                                        ''git push --force-with-lease origin main'']\<rparr>)"
  by (simp add: handleBranchDivergence_def forcePush_def runCommand_def
      without_show_current_def start_session_def Let_def)

subsection \<open>Paths\<close>

lemma posix_fields [simp]:
  "dirname posix = posix_dirname"
  "join posix = posix_join"
  "parse_root posix = posix_parse_root"
  "extname posix = posix_extname"
  by (simp_all add: posix_def)

lemma dirname_scan_bounds:
  "posix_dirname_scan p i m = Some e \<Longrightarrow> 1 \<le> e \<and> e \<le> i"
  by (induction p i m rule: posix_dirname_scan.induct) (auto split: if_splits)

lemma dirname_scan_below:
  "posix_dirname_scan p i True = Some e \<Longrightarrow> e < i"
proof (induction i)
  case 0
  then show ?case by simp
next
  case (Suc j)
  show ?case
  proof (cases "p ! Suc j = CHR ''/''")
    case True
    with Suc.prems have "posix_dirname_scan p j True = Some e" by simp
    then have "e < j" by (rule Suc.IH)
    then show ?thesis by simp
  next
    case False
    with Suc.prems have "posix_dirname_scan p j False = Some e" by simp
    then have "e \<le> j" using dirname_scan_bounds by blast
    then show ?thesis by simp
  qed
qed

lemma dirname_absolute:
  assumes "isAbsolute p"
  shows "isAbsolute (posix_dirname p)"
proof -
  from assms have len: "0 < length p" and root: "p ! 0 = CHR ''/''"
    by (simp_all add: isAbsolute_def)
  show ?thesis
  proof (cases "posix_dirname_scan p (length p - 1) True")
    case None
    with len root show ?thesis by (simp add: posix_dirname_def isAbsolute_def)
  next
    case (Some e)
    then have "1 \<le> e" "e \<le> length p - 1" using dirname_scan_bounds by blast+
    with Some len root show ?thesis by (auto simp add: posix_dirname_def isAbsolute_def)
  qed
qed

lemma dirname_shorter:
  assumes "isAbsolute p" and "p \<noteq> ''/''"
  shows "length (posix_dirname p) < length p"
proof -
  from assms(1) have len: "0 < length p" and root: "p ! 0 = CHR ''/''"
    by (simp_all add: isAbsolute_def)
  from len root assms(2) have two: "2 \<le> length p"
    by (cases p) (auto simp: Suc_le_eq)
  show ?thesis
  proof (cases "posix_dirname_scan p (length p - 1) True")
    case None
    with len root two show ?thesis by (simp add: posix_dirname_def)
  next
    case (Some e)
    then have "e < length p - 1" by (rule dirname_scan_below)
    moreover from Some have "1 \<le> e" using dirname_scan_bounds by blast
    ultimately show ?thesis using Some len root by (auto simp add: posix_dirname_def)
  qed
qed

lemma dirname_root: "posix_dirname ''/'' = ''/''"
  by (simp add: posix_dirname_def)

lemma dirname_not_longer:
  "isAbsolute p \<Longrightarrow> length (posix_dirname p) \<le> length p"
  using dirname_shorter [of p] dirname_root by (cases "p = ''/''") auto

lemma parse_root_absolute: "isAbsolute p \<Longrightarrow> posix_parse_root p = ''/''"
  by (simp add: posix_parse_root_def isAbsolute_def)

lemma loop_absolute:
  "path rt = posix \<Longrightarrow> isAbsolute current \<Longrightarrow> length current \<le> n \<Longrightarrow>
   isNestedInGitRepo_loop rt fs ''/'' current =
     Some (list_ex (\<lambda>dir. existsSync fs (posix_join dir ''.git'')) (ancestors_from n current))"
proof (induction n arbitrary: current)
  case 0
  then show ?case by (simp add: isAbsolute_def)
next
  case (Suc n)
  show ?case
  proof (cases "current = ''/''")
    case True
    then show ?thesis by (simp add: isNestedInGitRepo_loop.simps)
  next
    case False
    with Suc.prems have "length (posix_dirname current) < length current"
      "isAbsolute (posix_dirname current)"
      by (simp_all add: dirname_shorter dirname_absolute)
    with Suc.prems have "isNestedInGitRepo_loop rt fs ''/'' (posix_dirname current) =
       Some (list_ex (\<lambda>dir. existsSync fs (posix_join dir ''.git''))
               (ancestors_from n (posix_dirname current)))"
      by (intro Suc.IH) simp_all
    with False Suc.prems(1) show ?thesis
      by (subst isNestedInGitRepo_loop.simps) simp
  qed
qed

lemma isNestedInGitRepo_absolute:
  assumes "path rt = posix" and "isAbsolute (workspaceRoot this)"
  shows "isNestedInGitRepo rt this fs =
     Some (\<not> isGitRepository this fs \<and>
           list_ex (\<lambda>dir. existsSync fs (posix_join dir ''.git''))
             (ancestors_below_root (workspaceRoot this)))"
proof -
  from assms(2) have "isAbsolute (posix_dirname (workspaceRoot this))"
    and "length (posix_dirname (workspaceRoot this)) \<le> length (workspaceRoot this)"
    by (simp_all add: dirname_absolute dirname_not_longer)
  with assms(1) show ?thesis
    by (simp add: isNestedInGitRepo_def Let_def parse_root_absolute loop_absolute
        ancestors_below_root_def)
qed

lemma isNestedInGitRepo_of_repository:
  "isGitRepository this fs \<Longrightarrow> isNestedInGitRepo rt this fs = Some False"
  by (simp add: isNestedInGitRepo_def)

lemma dirname_dot: "posix_dirname ''.'' = ''.''"
  by (simp add: posix_dirname_def)

lemma join_dot: "posix_join ''.'' ''.git'' = ''.git''"
  by code_simp

lemma loop_relative_never_Some:
  assumes s: "isNestedInGitRepo_loop rt fs root current = Some y"
  shows "\<not> (path rt = posix \<and> root = [] \<and> current = ''.'' \<and> \<not> existsSync fs ''.git'')"
proof (rule isNestedInGitRepo_loop.raw_induct
    [where P = "\<lambda>rt fs root current y.
       \<not> (path rt = posix \<and> root = [] \<and> current = ''.'' \<and> \<not> existsSync fs ''.git'')",
     OF _ s])
  fix loop :: "runtime \<Rightarrow> filesystem \<Rightarrow> string \<Rightarrow> string \<Rightarrow> bool option"
  fix rt' :: runtime and fs' :: filesystem and root' current' :: string and y' :: bool
  assume IH: "\<And>rt fs root current y. loop rt fs root current = Some y \<Longrightarrow>
      \<not> (path rt = posix \<and> root = [] \<and> current = ''.'' \<and> \<not> existsSync fs ''.git'')"
    and step: "(if current' \<noteq> root'
      then if existsSync fs' (join (path rt') current' ''.git'') then Some True
           else loop rt' fs' root' (dirname (path rt') current')
      else Some False) = Some y'"
  show "\<not> (path rt' = posix \<and> root' = [] \<and> current' = ''.'' \<and> \<not> existsSync fs' ''.git'')"
  proof
    assume h: "path rt' = posix \<and> root' = [] \<and> current' = ''.'' \<and> \<not> existsSync fs' ''.git''"
    with step have "loop rt' fs' [] ''.'' = Some y'"
      by (simp add: dirname_dot join_dot)
    with IH h show False by blast
  qed
qed

lemma loop_relative_diverges:
  "path rt = posix \<Longrightarrow> \<not> existsSync fs ''.git'' \<Longrightarrow>
   isNestedInGitRepo_loop rt fs [] ''.'' = None"
  using loop_relative_never_Some [of rt fs "[]" "''.''"]
  by (cases "isNestedInGitRepo_loop rt fs [] ''.''") auto

subsection \<open>The directory classifier\<close>

lemma analyze_fields:
  assumes "analyzeCurrentDirectory rt this fs = Some a"
  shows "isGitRepo a = isGitRepository this fs"
    and "isEmpty a = isDirectoryEmpty this fs"
    and "hasSourceFiles a = hasSourceFiles_of rt this fs"
    and "isSystemFolder a = isSystemFolder_of rt this"
    and "isNestedInGitRepo rt this fs = Some (isNestedRepo a)"
  using assms
  by (auto simp add: analyzeCurrentDirectory_def Let_def split: option.splits if_splits)

lemma analyze_folderType:
  assumes "analyzeCurrentDirectory rt this fs = Some a"
  shows "folderType a =
     (if isGitRepo a then ''existing_git_repo''
      else if isSystemFolder a then ''system_folder''
      else if isNestedRepo a then ''nested_in_repo''
      else if isEmpty a then ''empty_folder''
      else if hasSourceFiles a then ''source_project''
      else ''general_folder'')"
  using assms
  by (auto simp add: analyzeCurrentDirectory_def Let_def split: option.splits if_splits)

lemma analyze_gitInitRecommended:
  assumes "analyzeCurrentDirectory rt this fs = Some a"
  shows "gitInitRecommended a = (\<not> isGitRepo a \<and> \<not> isSystemFolder a \<and> \<not> isNestedRepo a)"
  using assms
  by (auto simp add: analyzeCurrentDirectory_def Let_def split: option.splits if_splits)

lemma analyze_warningMessage:
  assumes "analyzeCurrentDirectory rt this fs = Some a"
  shows "warningMessage a =
     (if isGitRepo a then None
      else if isSystemFolder a then Some text_system_warning
      else if isNestedRepo a then Some text_nested_warning
      else None)"
  using assms
  by (auto simp add: analyzeCurrentDirectory_def Let_def split: option.splits if_splits)

lemma analyze_returns_iff:
  "(\<exists>a. analyzeCurrentDirectory rt this fs = Some a) \<longleftrightarrow> (\<exists>b. isNestedInGitRepo rt this fs = Some b)"
  by (auto simp add: analyzeCurrentDirectory_def Let_def split: option.splits)

text \<open>
  The order of the labels: in every analysis, each boolean field is the outcome of its
  probe and \<open>folderType\<close> is the label of the first test that holds, in the order existing
  repository, system folder, nested repository, empty, source files, general; so one
  label applies. On a POSIX host, an empty directory with an absolute path, without a
  \<open>.git\<close> entry of its own, not a system folder, with a parent directory strictly below
  the root that has a \<open>.git\<close> entry, is classified \<open>nested_in_repo\<close>.
\<close>

theorem folderType_priority:
  "(\<forall>a. analyzeCurrentDirectory rt this fs = Some a \<longrightarrow>
        isGitRepo a = isGitRepository this fs
      \<and> isSystemFolder a = isSystemFolder_of rt this
      \<and> isNestedInGitRepo rt this fs = Some (isNestedRepo a)
      \<and> isEmpty a = isDirectoryEmpty this fs
      \<and> hasSourceFiles a = hasSourceFiles_of rt this fs
      \<and> folderType a =
          (if isGitRepo a then ''existing_git_repo''
           else if isSystemFolder a then ''system_folder''
           else if isNestedRepo a then ''nested_in_repo''
           else if isEmpty a then ''empty_folder''
           else if hasSourceFiles a then ''source_project''
           else ''general_folder'')
      \<and> (isEmpty a \<and> \<not> isGitRepo a \<and> \<not> isSystemFolder a \<and> isNestedRepo a \<longrightarrow>
           folderType a = ''nested_in_repo'' \<and> folderType a \<noteq> ''empty_folder''))
   \<and> (path rt = posix \<and> isAbsolute (workspaceRoot this)
        \<and> readdirSync fs (workspaceRoot this) = Inr []
        \<and> \<not> existsSync fs (gitPath this)
        \<and> \<not> isSystemFolder_of rt this
        \<and> list_ex (\<lambda>dir. existsSync fs (posix_join dir ''.git''))
             (ancestors_below_root (workspaceRoot this))
      \<longrightarrow> (\<exists>a. analyzeCurrentDirectory rt this fs = Some a
               \<and> isEmpty a \<and> folderType a = ''nested_in_repo''
               \<and> folderType a \<noteq> ''empty_folder''))"
proof (rule conjI)
  show "\<forall>a. analyzeCurrentDirectory rt this fs = Some a \<longrightarrow>
        isGitRepo a = isGitRepository this fs
      \<and> isSystemFolder a = isSystemFolder_of rt this
      \<and> isNestedInGitRepo rt this fs = Some (isNestedRepo a)
      \<and> isEmpty a = isDirectoryEmpty this fs
      \<and> hasSourceFiles a = hasSourceFiles_of rt this fs
      \<and> folderType a =
          (if isGitRepo a then ''existing_git_repo''
           else if isSystemFolder a then ''system_folder''
           else if isNestedRepo a then ''nested_in_repo''
           else if isEmpty a then ''empty_folder''
           else if hasSourceFiles a then ''source_project''
           else ''general_folder'')
      \<and> (isEmpty a \<and> \<not> isGitRepo a \<and> \<not> isSystemFolder a \<and> isNestedRepo a \<longrightarrow>
           folderType a = ''nested_in_repo'' \<and> folderType a \<noteq> ''empty_folder'')"
  proof (intro allI impI)
    fix a
    assume a: "analyzeCurrentDirectory rt this fs = Some a"
    note ft = analyze_folderType [OF a]
    have "isEmpty a \<and> \<not> isGitRepo a \<and> \<not> isSystemFolder a \<and> isNestedRepo a \<longrightarrow>
           folderType a = ''nested_in_repo'' \<and> folderType a \<noteq> ''empty_folder''"
      by (simp add: ft)
    with analyze_fields [OF a] ft
    show "isGitRepo a = isGitRepository this fs
      \<and> isSystemFolder a = isSystemFolder_of rt this
      \<and> isNestedInGitRepo rt this fs = Some (isNestedRepo a)
      \<and> isEmpty a = isDirectoryEmpty this fs
      \<and> hasSourceFiles a = hasSourceFiles_of rt this fs
      \<and> folderType a =
          (if isGitRepo a then ''existing_git_repo''
           else if isSystemFolder a then ''system_folder''
           else if isNestedRepo a then ''nested_in_repo''
           else if isEmpty a then ''empty_folder''
           else if hasSourceFiles a then ''source_project''
           else ''general_folder'')
      \<and> (isEmpty a \<and> \<not> isGitRepo a \<and> \<not> isSystemFolder a \<and> isNestedRepo a \<longrightarrow>
           folderType a = ''nested_in_repo'' \<and> folderType a \<noteq> ''empty_folder'')"
      by blast
  qed
next
  show "path rt = posix \<and> isAbsolute (workspaceRoot this)
        \<and> readdirSync fs (workspaceRoot this) = Inr []
        \<and> \<not> existsSync fs (gitPath this)
        \<and> \<not> isSystemFolder_of rt this
        \<and> list_ex (\<lambda>dir. existsSync fs (posix_join dir ''.git''))
             (ancestors_below_root (workspaceRoot this))
      \<longrightarrow> (\<exists>a. analyzeCurrentDirectory rt this fs = Some a
               \<and> isEmpty a \<and> folderType a = ''nested_in_repo''
               \<and> folderType a \<noteq> ''empty_folder'')"
  proof
    assume h: "path rt = posix \<and> isAbsolute (workspaceRoot this)
        \<and> readdirSync fs (workspaceRoot this) = Inr []
        \<and> \<not> existsSync fs (gitPath this)
        \<and> \<not> isSystemFolder_of rt this
        \<and> list_ex (\<lambda>dir. existsSync fs (posix_join dir ''.git''))
             (ancestors_below_root (workspaceRoot this))"
    then have nested: "isNestedInGitRepo rt this fs = Some True"
      by (simp add: isNestedInGitRepo_absolute isGitRepository_def)
    then obtain a where a: "analyzeCurrentDirectory rt this fs = Some a"
      using analyze_returns_iff by blast
    from a nested have n: "isNestedRepo a" using analyze_fields(5) by fastforce
    from a h have g: "\<not> isGitRepo a" by (simp add: analyze_fields(1) isGitRepository_def)
    from a h have s: "\<not> isSystemFolder a" by (simp add: analyze_fields(4))
    from a h have e: "isEmpty a" by (simp add: analyze_fields(2) isDirectoryEmpty_def)
    from n g s have "folderType a = ''nested_in_repo''" by (simp add: analyze_folderType [OF a])
    with a e show "\<exists>a. analyzeCurrentDirectory rt this fs = Some a
               \<and> isEmpty a \<and> folderType a = ''nested_in_repo''
               \<and> folderType a \<noteq> ''empty_folder''" by auto
  qed
qed

lemma ancestors_sub:
  "ancestors_below_root ''/home/user/repo/sub'' = [''/home/user/repo'', ''/home/user'', ''/home'']"
  by code_simp

lemma not_system_example:
  "\<not> isSystemFolder_of posix_runtime (GitAutoPushCore posix_runtime ''/home/user/repo/sub'' linux)"
  by code_simp

lemma join_example:
  "posix_join ''/home/user/repo/sub'' ''.git'' = ''/home/user/repo/sub/.git''"
  "posix_join ''/home/user/repo'' ''.git'' = ''/home/user/repo/.git''"
  "posix_join ''/home/user'' ''.git'' = ''/home/user/.git''"
  "posix_join ''/home'' ''.git'' = ''/home/.git''"
  by code_simp+

lemma posix_runtime_path [simp]: "path posix_runtime = posix"
  by (simp add: posix_runtime_def)

lemma nested_example:
  "isAbsolute (workspaceRoot (GitAutoPushCore posix_runtime ''/home/user/repo/sub'' linux))"
  "readdirSync fs_nested_empty
     (workspaceRoot (GitAutoPushCore posix_runtime ''/home/user/repo/sub'' linux)) = Inr []"
  "\<not> existsSync fs_nested_empty
       (gitPath (GitAutoPushCore posix_runtime ''/home/user/repo/sub'' linux))"
  "list_ex (\<lambda>dir. existsSync fs_nested_empty (posix_join dir ''.git''))
     (ancestors_below_root
        (workspaceRoot (GitAutoPushCore posix_runtime ''/home/user/repo/sub'' linux)))"
  by (simp_all add: GitAutoPushCore_def isAbsolute_def fs_nested_empty_def join_example
      ancestors_sub)

theorem folderType_priority_witness:
  "path posix_runtime = posix
   \<and> isAbsolute (workspaceRoot (GitAutoPushCore posix_runtime ''/home/user/repo/sub'' linux))
   \<and> readdirSync fs_nested_empty
        (workspaceRoot (GitAutoPushCore posix_runtime ''/home/user/repo/sub'' linux)) = Inr []
   \<and> \<not> existsSync fs_nested_empty
         (gitPath (GitAutoPushCore posix_runtime ''/home/user/repo/sub'' linux))
   \<and> \<not> isSystemFolder_of posix_runtime
         (GitAutoPushCore posix_runtime ''/home/user/repo/sub'' linux)
   \<and> list_ex (\<lambda>dir. existsSync fs_nested_empty (posix_join dir ''.git''))
         (ancestors_below_root
            (workspaceRoot (GitAutoPushCore posix_runtime ''/home/user/repo/sub'' linux)))
   \<and> (\<exists>a. analyzeCurrentDirectory posix_runtime
               (GitAutoPushCore posix_runtime ''/home/user/repo/sub'' linux) fs_nested_empty
             = Some a
          \<and> isEmpty a \<and> folderType a = ''nested_in_repo'' \<and> folderType a \<noteq> ''empty_folder'')"
  using folderType_priority
    [of posix_runtime "GitAutoPushCore posix_runtime ''/home/user/repo/sub'' linux" fs_nested_empty]
    nested_example not_system_example posix_runtime_path
  by blast

lemma root_repo_paths:
  "posix_dirname ''/project'' = ''/''"
  "posix_join ''/'' ''.git'' = ''/.git''"
  "posix_join ''/project'' ''.git'' = ''/project/.git''"
  "posix_parse_root ''/'' = ''/''"
  by code_simp+

lemma not_system_project:
  "\<not> isSystemFolder_of posix_runtime (GitAutoPushCore posix_runtime ''/project'' linux)"
  by code_simp

lemma isNestedInGitRepo_root_repo:
  "\<not> existsSync fs (posix_join ''/project'' ''.git'') \<Longrightarrow>
   isNestedInGitRepo posix_runtime (GitAutoPushCore posix_runtime ''/project'' linux) fs
     = Some False"
  by (simp add: GitAutoPushCore_def root_repo_paths isGitRepository_def isNestedInGitRepo_def
      isNestedInGitRepo_loop.simps)

text \<open>
  C1, evaluated where the code departs from it: \<open>/project\<close> is empty, has no \<open>.git\<close>
  entry of its own, is not a system folder, and lies in the repository at the root
  \<open>/\<close>; the analysis gives \<open>isNestedRepo\<close> false and with it \<open>empty_folder\<close>, with
  \<open>gitInitRecommended\<close> true and no warning, where the specification has \<open>nested_in_repo\<close>.
\<close>

theorem analyzeCurrentDirectory_empty_under_root_repo:
  "readdirSync fs_empty_under_root_repo ''/project'' = Inr []
   \<and> existsSync fs_empty_under_root_repo ''/.git''
   \<and> \<not> existsSync fs_empty_under_root_repo ''/project/.git''
   \<and> \<not> isSystemFolder_of posix_runtime (GitAutoPushCore posix_runtime ''/project'' linux)
   \<and> analyzeCurrentDirectory posix_runtime (GitAutoPushCore posix_runtime ''/project'' linux)
         fs_empty_under_root_repo
       = Some \<lparr>isGitRepo = False, isEmpty = True, hasSourceFiles = False,
               isSystemFolder = False, isNestedRepo = False, folderType = ''empty_folder'',
               gitInitRecommended = True, warningMessage = None,
               actionRecommendation = text_empty_advice\<rparr>"
proof -
  let ?c = "GitAutoPushCore posix_runtime ''/project'' linux"
  have f: "readdirSync fs_empty_under_root_repo ''/project'' = Inr []"
    "existsSync fs_empty_under_root_repo ''/.git''"
    "\<not> existsSync fs_empty_under_root_repo ''/project/.git''"
    by (simp_all add: fs_empty_under_root_repo_def)
  have g: "\<not> isGitRepository ?c fs_empty_under_root_repo"
    by (simp add: isGitRepository_def GitAutoPushCore_def root_repo_paths f)
  have n: "isNestedInGitRepo posix_runtime ?c fs_empty_under_root_repo = Some False"
    by (rule isNestedInGitRepo_root_repo) (simp add: root_repo_paths f)
  have e: "isDirectoryEmpty ?c fs_empty_under_root_repo"
    by (simp add: isDirectoryEmpty_def GitAutoPushCore_def f)
  have h: "\<not> hasSourceFiles_of posix_runtime ?c fs_empty_under_root_repo"
    by (simp add: hasSourceFiles_of_def GitAutoPushCore_def f)
  have "analyzeCurrentDirectory posix_runtime ?c fs_empty_under_root_repo
       = Some \<lparr>isGitRepo = False, isEmpty = True, hasSourceFiles = False,
               isSystemFolder = False, isNestedRepo = False, folderType = ''empty_folder'',
               gitInitRecommended = True, warningMessage = None,
               actionRecommendation = text_empty_advice\<rparr>"
    by (simp add: analyzeCurrentDirectory_def n g e h not_system_project)
  with f not_system_project show ?thesis by simp
qed

text \<open>
  C4: in every analysis, \<open>gitInitRecommended\<close> is true exactly for the folder types
  \<open>empty_folder\<close>, \<open>source_project\<close> and \<open>general_folder\<close>, false exactly for
  \<open>existing_git_repo\<close>, \<open>system_folder\<close> and \<open>nested_in_repo\<close>, and \<open>warningMessage\<close>
  is set exactly for \<open>system_folder\<close> and \<open>nested_in_repo\<close>. A directory with a \<open>.git\<close>
  entry is analysed as \<open>existing_git_repo\<close> with \<open>gitInitRecommended\<close> false, whatever
  else it holds.
\<close>

theorem gitInit_and_warning:
  "(\<forall>a. analyzeCurrentDirectory rt this fs = Some a \<longrightarrow>
        (gitInitRecommended a \<longleftrightarrow>
           folderType a = ''empty_folder'' \<or> folderType a = ''source_project''
           \<or> folderType a = ''general_folder'')
      \<and> (\<not> gitInitRecommended a \<longleftrightarrow>
           folderType a = ''existing_git_repo'' \<or> folderType a = ''system_folder''
           \<or> folderType a = ''nested_in_repo'')
      \<and> (warningMessage a \<noteq> None \<longleftrightarrow>
           folderType a = ''system_folder'' \<or> folderType a = ''nested_in_repo''))
   \<and> (existsSync fs (gitPath this) \<longrightarrow>
        (\<exists>a. analyzeCurrentDirectory rt this fs = Some a
            \<and> folderType a = ''existing_git_repo'' \<and> \<not> gitInitRecommended a))"
proof (intro conjI allI impI)
  fix a
  assume a: "analyzeCurrentDirectory rt this fs = Some a"
  note ft = analyze_folderType [OF a] and gi = analyze_gitInitRecommended [OF a]
    and wm = analyze_warningMessage [OF a]
  show "gitInitRecommended a \<longleftrightarrow>
           folderType a = ''empty_folder'' \<or> folderType a = ''source_project''
           \<or> folderType a = ''general_folder''"
    by (simp add: ft gi)
  show "\<not> gitInitRecommended a \<longleftrightarrow>
           folderType a = ''existing_git_repo'' \<or> folderType a = ''system_folder''
           \<or> folderType a = ''nested_in_repo''"
    by (simp add: ft gi)
  show "warningMessage a \<noteq> None \<longleftrightarrow>
           folderType a = ''system_folder'' \<or> folderType a = ''nested_in_repo''"
    by (simp add: ft wm)
next
  assume "existsSync fs (gitPath this)"
  then have g: "isGitRepository this fs" by (simp add: isGitRepository_def)
  then have "isNestedInGitRepo rt this fs = Some False" by (rule isNestedInGitRepo_of_repository)
  then obtain a where a: "analyzeCurrentDirectory rt this fs = Some a"
    using analyze_returns_iff by blast
  with g have "isGitRepo a" by (simp add: analyze_fields(1))
  then have "folderType a = ''existing_git_repo''" "\<not> gitInitRecommended a"
    by (simp_all add: analyze_folderType [OF a] analyze_gitInitRecommended [OF a])
  with a show "\<exists>a. analyzeCurrentDirectory rt this fs = Some a
            \<and> folderType a = ''existing_git_repo'' \<and> \<not> gitInitRecommended a" by blast
qed

lemma gitPath_example: "gitPath example_core = ''/home/user/project/.git''"
  unfolding example_core_def GitAutoPushCore_def by code_simp

theorem gitInit_and_warning_witness:
  "existsSync fs_project_repo (gitPath example_core)
   \<and> (\<exists>a. analyzeCurrentDirectory posix_runtime example_core fs_project_repo = Some a
          \<and> folderType a = ''existing_git_repo'' \<and> \<not> gitInitRecommended a
          \<and> warningMessage a = None)"
proof -
  have e: "existsSync fs_project_repo (gitPath example_core)"
    by (simp add: gitPath_example fs_project_repo_def)
  with gitInit_and_warning [of posix_runtime example_core fs_project_repo]
  obtain a where a: "analyzeCurrentDirectory posix_runtime example_core fs_project_repo = Some a"
    "folderType a = ''existing_git_repo''" "\<not> gitInitRecommended a"
    by blast
  with gitInit_and_warning [of posix_runtime example_core fs_project_repo]
  have "warningMessage a = None" by auto
  with e a show ?thesis by blast
qed

text \<open>
  On a POSIX host, for an absolute workspace root and every file system,
  \<open>analyzeCurrentDirectory\<close> returns an analysis, whose \<open>isEmpty\<close> and \<open>hasSourceFiles\<close>
  are the answers of \<open>isDirectoryEmpty\<close> and \<open>hasSourceFiles\<close>; when the listing of the
  directory fails, both are false.
\<close>

theorem classifier_total:
  assumes "path rt = posix" and "isAbsolute (workspaceRoot this)"
  shows "\<exists>a. analyzeCurrentDirectory rt this fs = Some a
            \<and> isEmpty a = isDirectoryEmpty this fs
            \<and> hasSourceFiles a = hasSourceFiles_of rt this fs
            \<and> ((\<exists>e. readdirSync fs (workspaceRoot this) = Inl e) \<longrightarrow>
                  \<not> isEmpty a \<and> \<not> hasSourceFiles a)"
proof -
  from assms obtain b where "isNestedInGitRepo rt this fs = Some b"
    by (simp add: isNestedInGitRepo_absolute)
  then obtain a where a: "analyzeCurrentDirectory rt this fs = Some a"
    using analyze_returns_iff by blast
  have "(\<exists>e. readdirSync fs (workspaceRoot this) = Inl e) \<longrightarrow>
          \<not> isDirectoryEmpty this fs \<and> \<not> hasSourceFiles_of rt this fs"
    by (auto simp add: isDirectoryEmpty_def hasSourceFiles_of_def)
  with a show ?thesis by (auto simp add: analyze_fields(2,3) [OF a])
qed

theorem classifier_total_witness:
  "path posix_runtime = posix
   \<and> isAbsolute (workspaceRoot (GitAutoPushCore posix_runtime ''/home/user/locked'' linux))
   \<and> readdirSync fs_unreadable
        (workspaceRoot (GitAutoPushCore posix_runtime ''/home/user/locked'' linux))
       = Inl (FsError ''EACCES'')
   \<and> (\<exists>a. analyzeCurrentDirectory posix_runtime
               (GitAutoPushCore posix_runtime ''/home/user/locked'' linux) fs_unreadable = Some a
          \<and> \<not> isEmpty a \<and> \<not> hasSourceFiles a)"
proof -
  let ?c = "GitAutoPushCore posix_runtime ''/home/user/locked'' linux"
  have 1: "isAbsolute (workspaceRoot ?c)" by (simp add: GitAutoPushCore_def isAbsolute_def)
  have 2: "readdirSync fs_unreadable (workspaceRoot ?c) = Inl (FsError ''EACCES'')"
    by (simp add: fs_unreadable_def)
  from classifier_total [OF posix_runtime_path 1, of fs_unreadable] 1 2 show ?thesis by auto
qed

lemma relative_root_paths:
  "posix_join ''project'' ''.git'' = ''project/.git''"
  "posix_dirname ''project'' = ''.''"
  "posix_parse_root ''.'' = []"
  by code_simp+

lemma analyzeCurrentDirectory_relative_root:
  assumes "path rt = posix"
    and "\<not> existsSync fs ''project/.git''" and "\<not> existsSync fs ''.git''"
  shows "analyzeCurrentDirectory rt (GitAutoPushCore rt ''project'' info) fs = None"
proof -
  from assms have "isNestedInGitRepo rt (GitAutoPushCore rt ''project'' info) fs = None"
    by (simp add: isNestedInGitRepo_def isGitRepository_def GitAutoPushCore_def
        relative_root_paths loop_relative_diverges)
  then show ?thesis by (simp add: analyzeCurrentDirectory_def)
qed

text \<open>
  C7, evaluated where the code departs from it: for the relative workspace root
  \<open>project\<close>, a readable directory with one file and no \<open>.git\<close> entry in it or beside
  it, the walk of \<open>isNestedInGitRepo\<close> starts at \<open>.\<close>, whose \<open>dirname\<close> is \<open>.\<close> again,
  and compares it with the empty root of a relative path: the loop never ends, and
  \<open>analyzeCurrentDirectory\<close> returns no analysis.
\<close>

theorem analyzeCurrentDirectory_never_returns:
  "readdirSync fs_relative_project ''project'' = Inr [''notes.txt'']
   \<and> \<not> existsSync fs_relative_project ''project/.git''
   \<and> \<not> existsSync fs_relative_project ''.git''
   \<and> dirname (path posix_runtime) ''project'' = ''.''
   \<and> parse_root (path posix_runtime) ''.'' = []
   \<and> dirname (path posix_runtime) ''.'' = ''.''
   \<and> analyzeCurrentDirectory posix_runtime (GitAutoPushCore posix_runtime ''project'' linux)
         fs_relative_project = None"
proof -
  have f: "readdirSync fs_relative_project ''project'' = Inr [''notes.txt'']"
    "\<not> existsSync fs_relative_project ''project/.git''"
    "\<not> existsSync fs_relative_project ''.git''"
    by (simp_all add: fs_relative_project_def)
  from analyzeCurrentDirectory_relative_root [OF posix_runtime_path f(2,3)]
  have "analyzeCurrentDirectory posix_runtime (GitAutoPushCore posix_runtime ''project'' linux)
         fs_relative_project = None" .
  with f show ?thesis by (simp add: relative_root_paths dirname_dot)
qed

text \<open>
  C5, evaluated where the code departs from it: \<open>/project\<close> is not a repository, its
  parent directory is the root \<open>/\<close>, and the root has a \<open>.git\<close> entry; the loop of
  \<open>isNestedInGitRepo\<close> ends before it looks at the root, and the answer is false.
\<close>

theorem isNestedInGitRepo_skips_root:
  "dirname (path posix_runtime) (workspaceRoot (GitAutoPushCore posix_runtime ''/project'' linux))
     = ''/''
   \<and> existsSync fs_repo_at_root (join (path posix_runtime) ''/'' ''.git'')
   \<and> \<not> isGitRepository (GitAutoPushCore posix_runtime ''/project'' linux) fs_repo_at_root
   \<and> isNestedInGitRepo posix_runtime (GitAutoPushCore posix_runtime ''/project'' linux)
         fs_repo_at_root = Some False"
proof -
  have e: "existsSync fs_repo_at_root ''/.git''"
    "\<not> existsSync fs_repo_at_root (posix_join ''/project'' ''.git'')"
    by (simp_all add: fs_repo_at_root_def root_repo_paths)
  from e(2) have n: "isNestedInGitRepo posix_runtime (GitAutoPushCore posix_runtime ''/project'' linux)
         fs_repo_at_root = Some False"
    by (rule isNestedInGitRepo_root_repo)
  from e n show ?thesis
    by (simp add: GitAutoPushCore_def root_repo_paths isGitRepository_def)
qed

text \<open>
  C6, evaluated where the code departs from it: in a linked worktree \<open>.git\<close> is a regular
  file; \<open>isGitRepository\<close> answers true for it, while \<open>getWorkspaceRoot\<close>, which asks
  for a directory, passes the worktree over and falls back to the first folder.
\<close>

theorem isGitRepository_accepts_file:
  "statSync fs_git_file ''/home/user/worktree/.git'' = Inr File
   \<and> isGitRepository (GitAutoPushCore posix_runtime ''/home/user/worktree'' linux) fs_git_file
   \<and> getWorkspaceRoot fs_git_file (Some [''/home/user/other'', ''/home/user/worktree''])
       = Inr ''/home/user/other''"
proof -
  have j: "posix_join ''/home/user/worktree'' ''.git'' = ''/home/user/worktree/.git''"
    by code_simp
  show ?thesis
    by (simp add: GitAutoPushCore_def j isGitRepository_def fs_git_file_def getWorkspaceRoot_def
        isDirectory_def)
qed

subsection \<open>Further properties of the parent walk\<close>

text \<open>
  On a POSIX host, for an absolute workspace root the walk of \<open>isNestedInGitRepo\<close> ends,
  and its answer is true exactly when the directory has no \<open>.git\<close> entry of its own and
  one of its parent directories strictly below the root has one.
\<close>

theorem isNestedInGitRepo_below_root:
  "path rt = posix \<and> isAbsolute (workspaceRoot this) \<longrightarrow>
   isNestedInGitRepo rt this fs =
     Some (\<not> isGitRepository this fs \<and>
           list_ex (\<lambda>dir. existsSync fs (posix_join dir ''.git''))
             (ancestors_below_root (workspaceRoot this)))"
  by (simp add: isNestedInGitRepo_absolute)

theorem isNestedInGitRepo_below_root_witness:
  "path posix_runtime = posix
   \<and> isAbsolute (workspaceRoot (GitAutoPushCore posix_runtime ''/home/user/repo/sub'' linux))
   \<and> ancestors_below_root
        (workspaceRoot (GitAutoPushCore posix_runtime ''/home/user/repo/sub'' linux))
       = [''/home/user/repo'', ''/home/user'', ''/home'']
   \<and> isNestedInGitRepo posix_runtime (GitAutoPushCore posix_runtime ''/home/user/repo/sub'' linux)
         fs_nested_empty = Some True"
proof -
  let ?c = "GitAutoPushCore posix_runtime ''/home/user/repo/sub'' linux"
  have 2: "ancestors_below_root (workspaceRoot ?c) = [''/home/user/repo'', ''/home/user'', ''/home'']"
    by (simp add: GitAutoPushCore_def ancestors_sub)
  have 3: "\<not> isGitRepository ?c fs_nested_empty"
    using nested_example(3) by (simp add: isGitRepository_def)
  from isNestedInGitRepo_below_root [of posix_runtime ?c fs_nested_empty] nested_example(1,4) 3
  have "isNestedInGitRepo posix_runtime ?c fs_nested_empty = Some True"
    by simp
  with nested_example(1) 2 show ?thesis by simp
qed

subsection \<open>The standalone scripts\<close>











text \<open>
  In the batch script that takes the repository path, the \<open>shift\<close> at the label drops
  the argument that follows an option that was just handled: after \<open>-m msg\<close> the
  option \<open>-b dev\<close> is lost.
\<close>

theorem bat_github_drops_option:
  "bat_github_start [''/repo'', ''-m'', ''msg'', ''-b'', ''dev'']
     = Inr (''/repo'', \<lparr>COMMIT_MESSAGE = ''msg'', BRANCH = [], FORCE_PUSH = []\<rparr>)
   \<and> bat_github_start [''/repo'', ''-b'', ''dev'']
     = Inr (''/repo'', \<lparr>COMMIT_MESSAGE = [], BRANCH = ''dev'', FORCE_PUSH = []\<rparr>)"
  by (simp add: bat_github_start_def no_args_def)

end
